theory Spec2Isabelle
  imports Main "HOL-Library.Sublist"
begin

section \<open>The handlers of internal/endpoints/payloads.go\<close>

text \<open>
  The three HTTP handlers \<open>Payloads\<close>, \<open>RequestIdPayloads\<close> and \<open>PayloadArchiveLink\<close>
  are embedded as state transformers. The state holds the package-level variable
  \<open>verbosity\<close> and the trace of everything a handler does to the outside: responses
  written, collaborator calls, outbound HTTP calls, metrics and log lines, in program
  order. What the handlers call but is declared outside this source file is either a
  field of an environment record (the query normaliser, the sort-field whitelists, the
  timestamp check, the role check, the storage collaborator, the clock, the HTTP client,
  the JSON codec), so that a theorem holds for every behaviour of that part, or a small
  definition that follows the spec where the spec fixes the behaviour (the error body,
  the membership test, the sort directions).
\<close>

subsection \<open>JSON values\<close>

text \<open>
  A JSON text is represented by the value it denotes. \<open>JSeconds d\<close> is the float64
  number of seconds that \<open>time.Duration.Seconds\<close> gives for a duration of \<open>d\<close>
  nanoseconds; it is kept symbolic.
\<close>

datatype json =
    JNull
  | JBool bool
  | JInt int
  | JSeconds int
  | JString string
  | JArray "json list"
  | JObject "(string \<times> json) list"

subsection \<open>Semantic equality of JSON values\<close>

text \<open>Two JSON values are semantically equal when they are the same scalar, arrays equal
  element by element, or objects equal as maps from member names to values, whatever the
  order of the members; of several members with one name the last counts, as for a Go
  map. This is the equality of \<open>decode(output) == decode(input)\<close>.\<close>

primrec json_equiv :: "json \<Rightarrow> json \<Rightarrow> bool" where
  "json_equiv JNull b = (b = JNull)"
| "json_equiv (JBool x) b = (b = JBool x)"
| "json_equiv (JInt x) b = (b = JInt x)"
| "json_equiv (JSeconds x) b = (b = JSeconds x)"
| "json_equiv (JString x) b = (b = JString x)"
| "json_equiv (JArray xs) b =
     (case b of
        JArray ys \<Rightarrow>
          length xs = length ys \<and> list_all (\<lambda>(p, y). p y) (zip (map json_equiv xs) ys)
      | _ \<Rightarrow> False)"
| "json_equiv (JObject ms) b =
     (case b of
        JObject ns \<Rightarrow>
          set (map fst ms) = set (map fst ns)
          \<and> list_all
              (\<lambda>k. case (map_of (rev (map (map_prod id json_equiv) ms)) k, map_of (rev ns) k) of
                     (Some p, Some v) \<Rightarrow> p v
                   | _ \<Rightarrow> False)
              (map fst ms)
      | _ \<Rightarrow> False)"

definition is_JString :: "json \<Rightarrow> bool" where
  "is_JString v = (case v of JString x \<Rightarrow> True | _ \<Rightarrow> False)"

subsection \<open>Inbound request\<close>

record request =
  query_params :: "(string \<times> string) list"
  url_params :: "(string \<times> string) list"
  header :: "(string \<times> string) list"

text \<open>\<open>r.URL.Query().Get(k)\<close>, \<open>chi.URLParam(r, k)\<close> and \<open>r.Header.Get(k)\<close>: the first
  value stored under the key, the empty string when there is none. Header names are
  compared without regard to case in Go; here a header is stored under the spelling the
  source uses.\<close>

definition first_value :: "(string \<times> string) list \<Rightarrow> string \<Rightarrow> string" where
  "first_value kvs k = (case map_of kvs k of None \<Rightarrow> [] | Some v \<Rightarrow> v)"

definition Query_Get :: "request \<Rightarrow> string \<Rightarrow> string" where
  "Query_Get r k = first_value (query_params r) k"

definition URLParam :: "request \<Rightarrow> string \<Rightarrow> string" where
  "URLParam r k = first_value (url_params r) k"

definition Header_Get :: "request \<Rightarrow> string \<Rightarrow> string" where
  "Header_Get r k = first_value (header r) k"

subsection \<open>Types declared outside the file\<close>

text \<open>Modelled from the spec: \<open>structs.Query\<close> is declared outside this file. The
  handlers read \<open>Page\<close>, \<open>PageSize\<close>, \<open>SortBy\<close> and \<open>SortDir\<close> and write \<open>SortBy\<close>;
  the remaining fields follow the QueryDescriptor of the data model (optional start and
  end timestamps as instants, free-text filters).\<close>

record Query =
  Page :: int
  PageSize :: int
  SortBy :: string
  SortDir :: string
  startDate :: "int option"
  endDate :: "int option"
  freeTextFilters :: "(string \<times> string) list"

text \<open>A payload record is opaque to the handlers; it is represented by the JSON value
  it is encoded to. A Go slice is \<open>None\<close> when it is nil.\<close>

type_synonym payload = json

text \<open>The struct \<open>structs.PayloadArchiveLink\<close> is declared outside this file: a value
  of it is the list of its JSON field names with the field values.\<close>

type_synonym archive_link = "(string \<times> json) list"

subsection \<open>Outbound HTTP\<close>

record out_request =
  Method :: string
  URL :: string
  Header :: "(string \<times> string) list"

text \<open>The response of the storage broker: its status code and what
  \<open>ioutil.ReadAll(response.Body)\<close> yields, an error or the bytes of the body.\<close>

record http_response =
  StatusCode :: nat
  Body :: "string + string"

subsection \<open>Environment\<close>

record env =
  initQuery :: "request \<Rightarrow> string + Query"
  validAllSortBy :: "string list"
  validIDSortBy :: "string list"
  validTimestamps :: "Query \<Rightarrow> bool \<Rightarrow> bool"
  identityHasRole :: "request \<Rightarrow> string \<Rightarrow> bool"
  RetrievePayloads :: "int \<Rightarrow> int \<Rightarrow> Query \<Rightarrow> int \<times> payload list option"
  RetrieveRequestIdPayloads ::
    "string \<Rightarrow> string \<Rightarrow> string \<Rightarrow> string \<Rightarrow> payload list option"
  CalculateDurations :: "payload list \<Rightarrow> json"
  time_Since :: "nat \<Rightarrow> int"
  json_Marshal_error :: "json \<Rightarrow> string option"
  json_Unmarshal_link :: "string \<Rightarrow> string + archive_link"
  StorageBrokerURL :: string
  url_Parse_error :: "string \<Rightarrow> string option"
  client_Do :: "out_request \<Rightarrow> string + http_response"

subsection \<open>Effects\<close>

datatype event =
    IncRequests
  | ObserveDBTime int
  | WriteResponse nat json
  | CallRetrievePayloads int int Query
  | CallRetrieveRequestIdPayloads string string string string
  | CallCalculateDurations "payload list"
  | NewRequest string string
  | ClientDo out_request
  | LogError string
  | LogInfo string string string

record state =
  verbosity :: string
  trace :: "event list"

definition emit :: "event \<Rightarrow> state \<Rightarrow> state" where
  "emit e s = s\<lparr>trace := trace s @ [e]\<rparr>"

text \<open>\<open>writeResponse(w, status, body)\<close> is declared outside the file; it is the one way
  a handler answers.\<close>

definition writeResponse :: "nat \<Rightarrow> json \<Rightarrow> state \<Rightarrow> state" where
  "writeResponse status body s = emit (WriteResponse status body) s"

text \<open>The responses written along a trace.\<close>

fun responses :: "event list \<Rightarrow> (nat \<times> json) list" where
  "responses [] = []"
| "responses (WriteResponse status body # evs) = (status, body) # responses evs"
| "responses (ev # evs) = responses evs"

text \<open>Modelled from the spec: \<open>getErrorBody\<close> is declared outside the file. The error
  body has the shape \<open>{"message": string, "status": integer}\<close>.\<close>

definition getErrorBody :: "string \<Rightarrow> nat \<Rightarrow> json" where
  "getErrorBody message status =
     JObject [(''message'', JString message), (''status'', JInt (int status))]"

text \<open>Modelled from the spec: \<open>stringInSlice\<close> is declared outside the file; the
  whitelist check is a slice-membership check.\<close>

fun stringInSlice :: "string \<Rightarrow> string list \<Rightarrow> bool" where
  "stringInSlice a [] = False"
| "stringInSlice a (b # bs) = (if b = a then True else stringInSlice a bs)"

text \<open>Modelled from the spec: \<open>validSortDir\<close> is declared outside the file; the sort
  direction is one of asc and desc.\<close>

definition validSortDir :: "string list" where
  "validSortDir = [''asc'', ''desc'']"

text \<open>\<open>strings.Join(elems, sep)\<close> of the Go standard library.\<close>

fun strings_Join :: "string list \<Rightarrow> string \<Rightarrow> string" where
  "strings_Join [] sep = []"
| "strings_Join [x] sep = x"
| "strings_Join (x # y # ys) sep = x @ sep @ strings_Join (y # ys) sep"

text \<open>\<open>json.Marshal\<close>: an error of the encoder, or the text denoting the value.\<close>

definition json_Marshal :: "env \<Rightarrow> json \<Rightarrow> string + json" where
  "json_Marshal e v = (case json_Marshal_error e v of Some err \<Rightarrow> Inl err | None \<Rightarrow> Inr v)"

definition len :: "'a list option \<Rightarrow> nat" where
  "len xs = (case xs of None \<Rightarrow> 0 | Some ys \<Rightarrow> length ys)"

definition elems :: "'a list option \<Rightarrow> 'a list" where
  "elems xs = (case xs of None \<Rightarrow> [] | Some ys \<Rightarrow> ys)"

definition slice_json :: "payload list option \<Rightarrow> json" where
  "slice_json ps = (case ps of None \<Rightarrow> JNull | Some xs \<Rightarrow> JArray xs)"

text \<open>Modelled from the spec: \<open>structs.PayloadsData\<close> is declared outside the file; its
  encoding is the object with the members count, duration and data.\<close>

definition PayloadsData :: "int \<Rightarrow> int \<Rightarrow> payload list option \<Rightarrow> json" where
  "PayloadsData count duration payloads =
     JObject [(''count'', JInt count), (''duration'', JSeconds duration),
              (''data'', slice_json payloads)]"

text \<open>Modelled from the spec: \<open>structs.PayloadRetrievebyID\<close> is declared outside the
  file; its encoding holds the records and the durations.\<close>

definition PayloadRetrievebyID :: "payload list option \<Rightarrow> json \<Rightarrow> json" where
  "PayloadRetrievebyID payloads durations =
     JObject [(''data'', slice_json payloads), (''durations'', durations)]"

text \<open>\<open>http.NewRequest(method, url, nil)\<close>: the error of parsing the URL, or the request
  with that method and URL and no header.\<close>

definition http_NewRequest :: "env \<Rightarrow> string \<Rightarrow> string \<Rightarrow> string + out_request" where
  "http_NewRequest e method url =
     (case url_Parse_error e url of
        Some err \<Rightarrow> Inl err
      | None \<Rightarrow> Inr \<lparr>Method = method, URL = url, Header = []\<rparr>)"

definition Header_Add :: "string \<Rightarrow> string \<Rightarrow> out_request \<Rightarrow> out_request" where
  "Header_Add k v req = req\<lparr>Header := Header req @ [(k, v)]\<rparr>"

subsection \<open>Payloads: the endpoint /payloads\<close>

definition Payloads :: "env \<Rightarrow> request \<Rightarrow> state \<Rightarrow> state" where
  "Payloads e r s =
     (let sortBy = Query_Get r ''sort_by'';
          s1 = emit IncRequests s
      in case initQuery e r of
           Inl err \<Rightarrow> writeResponse 400 (getErrorBody err 400) s1
         | Inr q0 \<Rightarrow>
             let q = (if sortBy = [] then q0\<lparr>SortBy := ''created_at''\<rparr> else q0)
             in if \<not> stringInSlice (SortBy q) (validAllSortBy e) then
                  writeResponse 400
                    (getErrorBody (''sort_by must be one of ''
                        @ strings_Join (validAllSortBy e) '', '') 400) s1
                else if \<not> stringInSlice (SortDir q) validSortDir then
                  writeResponse 400
                    (getErrorBody (''sort_dir must be one of ''
                        @ strings_Join validSortDir '', '') 400) s1
                else if \<not> validTimestamps e q False then
                  writeResponse 400
                    (getErrorBody ''invalid timestamp format provided'' 400) s1
                else
                  let s2 = emit (CallRetrievePayloads (Page q) (PageSize q) q) s1;
                      res = RetrievePayloads e (Page q) (PageSize q) q;
                      duration = time_Since e 0;
                      s3 = emit (ObserveDBTime (time_Since e 1)) s2
                  in (case json_Marshal e (PayloadsData (fst res) duration (snd res)) of
                        Inl err \<Rightarrow>
                          writeResponse 500 (getErrorBody ''Internal Server Issue'' 500)
                            (emit (LogError err) s3)
                      | Inr dataJson \<Rightarrow> writeResponse 200 dataJson s3))"

subsection \<open>RequestIdPayloads: the endpoint /payloads/{request_id}\<close>

definition RequestIdPayloads :: "env \<Rightarrow> request \<Rightarrow> state \<Rightarrow> state" where
  "RequestIdPayloads e r s =
     (let reqID = URLParam r ''request_id'';
          s0 = s\<lparr>verbosity := Query_Get r ''verbosity''\<rparr>
      in case initQuery e r of
           Inl err \<Rightarrow> writeResponse 400 (getErrorBody err 400) s0
         | Inr q \<Rightarrow>
             if \<not> stringInSlice (SortBy q) (validIDSortBy e) then
               writeResponse 400
                 (getErrorBody (''sort_by must be one of ''
                     @ strings_Join (validIDSortBy e) '', '') 400) s0
             else if \<not> stringInSlice (SortDir q) validSortDir then
               writeResponse 400
                 (getErrorBody (''sort_dir must be one of ''
                     @ strings_Join validSortDir '', '') 400) s0
             else
               let s1 = emit (CallRetrieveRequestIdPayloads reqID (SortBy q) (SortDir q)
                                (verbosity s0)) s0;
                   payloads = RetrieveRequestIdPayloads e reqID (SortBy q) (SortDir q)
                                (verbosity s0)
               in if payloads = None \<or> len payloads = 0 then
                    writeResponse 404
                      (getErrorBody (''payload with id: '' @ reqID @ '' not found'') 404) s1
                  else
                    let ps = elems payloads;
                        s2 = emit (CallCalculateDurations ps) s1;
                        durations = CalculateDurations e ps
                    in (case json_Marshal e (PayloadRetrievebyID payloads durations) of
                          Inl err \<Rightarrow>
                            writeResponse 500 (getErrorBody ''Internal Server Issue'' 500)
                              (emit (LogError err) s2)
                        | Inr dataJson \<Rightarrow> writeResponse 200 dataJson s2))"

subsection \<open>PayloadArchiveLink: the endpoint /payloads/{request_id}/archiveLink\<close>

definition PayloadArchiveLink :: "env \<Rightarrow> request \<Rightarrow> state \<Rightarrow> state" where
  "PayloadArchiveLink e r s =
     (let reqID = URLParam r ''request_id''
      in if \<not> identityHasRole e r ''platform-archive-download'' then
           writeResponse 401 (getErrorBody ''Unauthorized'' 401) s
         else
           let url = StorageBrokerURL e @ ''?request_id='' @ reqID;
               s0 = emit (NewRequest ''GET'' url) s
           in case http_NewRequest e ''GET'' url of
             Inl err \<Rightarrow>
               writeResponse 500 (getErrorBody ''Error with Request ID'' 500)
                 (emit (LogError err) s0)
           | Inr req0 \<Rightarrow>
               let req = Header_Add ''x-rh-identity'' (Header_Get r ''x-rh-identity'') req0;
                   s1 = emit (ClientDo req) s0
               in (case client_Do e req of
                    Inl err \<Rightarrow>
                      writeResponse 500
                        (getErrorBody ''Error fetching payload URL from storage-broker'' 500)
                        (emit (LogError err) s1)
                  | Inr response \<Rightarrow>
                      (case Body response of
                         Inl err \<Rightarrow>
                           writeResponse 500 (getErrorBody ''Error reading response'' 500)
                             (emit (LogError err) s1)
                       | Inr body \<Rightarrow>
                           (case json_Unmarshal_link e body of
                              Inl err \<Rightarrow>
                                writeResponse 500
                                  (getErrorBody ''Error unmarshaling the response'' 500)
                                  (emit (LogError err) s1)
                            | Inr payloadArchiveLink \<Rightarrow>
                                (case json_Marshal e (JObject payloadArchiveLink) of
                                   Inl err \<Rightarrow>
                                     writeResponse 500
                                       (getErrorBody
                                          ''Error converting parsed response to json'' 500)
                                       (emit (LogError err) s1)
                                 | Inr dataJson \<Rightarrow>
                                     writeResponse 200 dataJson
                                       (emit (LogInfo reqID (Header_Get r ''x-rh-identity'')
                                                body) s1))))))"

subsection \<open>Decoding into a Go struct\<close>

text \<open>
  \<open>json.Unmarshal(body, &payloadArchiveLink)\<close> decodes into a struct. The decoder of
  encoding/json is directed by the struct: a top-level null leaves the zero value, a
  top-level object is read member by member, any other top-level value is an error. A
  member whose key names no field is skipped; a key is matched exactly or else without
  regard to case; a string is stored, a null is skipped, any other value is a type
  error. The first error is kept, and decoding goes on. The struct is given by the JSON
  names \<open>fs\<close> of its fields, all of Go type string and none omitted when empty;
  \<open>dec\<close> is the syntax layer of the decoder, the value a text denotes or \<open>None\<close> when
  the text is not JSON. Encoding a struct gives the object of its fields in order.
\<close>

definition ascii_lower :: "char \<Rightarrow> char" where
  "ascii_lower c =
     (case map_of (zip ''ABCDEFGHIJKLMNOPQRSTUVWXYZ'' ''abcdefghijklmnopqrstuvwxyz'') c of
        None \<Rightarrow> c
      | Some d \<Rightarrow> d)"

definition EqualFold :: "string \<Rightarrow> string \<Rightarrow> bool" where
  "EqualFold a b = (map ascii_lower a = map ascii_lower b)"

definition find_field :: "string list \<Rightarrow> string \<Rightarrow> string option" where
  "find_field fs k = (if k \<in> set fs then Some k else find (\<lambda>f. EqualFold f k) fs)"

definition zero_struct :: "string list \<Rightarrow> archive_link" where
  "zero_struct fs = map (\<lambda>f. (f, JString [])) fs"

definition set_field :: "string \<Rightarrow> json \<Rightarrow> archive_link \<Rightarrow> archive_link" where
  "set_field f v l = map (\<lambda>(g, w). if g = f then (g, v) else (g, w)) l"

fun decode_member ::
  "string list \<Rightarrow> string option \<times> archive_link \<Rightarrow> string \<times> json
     \<Rightarrow> string option \<times> archive_link" where
  "decode_member fs (err, l) (k, v) =
     (case find_field fs k of
        None \<Rightarrow> (err, l)
      | Some f \<Rightarrow>
          (case v of
             JString x \<Rightarrow> (err, set_field f (JString x) l)
           | JNull \<Rightarrow> (err, l)
           | _ \<Rightarrow>
               (case err of
                  None \<Rightarrow> (Some ''json: cannot unmarshal into Go struct field'', l)
                | Some _ \<Rightarrow> (err, l))))"

definition go_Unmarshal_struct ::
  "(string \<Rightarrow> json option) \<Rightarrow> string list \<Rightarrow> string \<Rightarrow> string + archive_link" where
  "go_Unmarshal_struct dec fs body =
     (case dec body of
        None \<Rightarrow> Inl ''json: invalid character''
      | Some JNull \<Rightarrow> Inr (zero_struct fs)
      | Some (JObject ms) \<Rightarrow>
          (case foldl (decode_member fs) (None, zero_struct fs) ms of
             (None, l) \<Rightarrow> Inr l
           | (Some err, l) \<Rightarrow> Inl err)
      | Some _ \<Rightarrow> Inl ''json: cannot unmarshal into Go value of type structs.PayloadArchiveLink'')"

subsection \<open>URL parsing\<close>

text \<open>\<open>http.NewRequest\<close> parses its URL with \<open>url.Parse\<close> of the Go standard
  library, which rejects a URL that holds an ASCII control byte (below 0x20, or 0x7f).
  This is the one failure of \<open>url.Parse\<close> that is written out here.\<close>

definition stringContainsCTLByte :: "string \<Rightarrow> bool" where
  "stringContainsCTLByte u = list_ex (\<lambda>c. (of_char c :: nat) < 32 \<or> (of_char c :: nat) = 127) u"

definition go_url_Parse_error :: "string \<Rightarrow> string option" where
  "go_url_Parse_error u =
     (if stringContainsCTLByte u then Some ''net/url: invalid control character in URL''
      else None)"








subsection \<open>The query normaliser and the timestamp check\<close>

text \<open>Modelled from the spec: \<open>validTimestamps\<close> is declared outside the file. When both
  bounds are supplied the start must not be after the end; the flag selects a stricter
  variant, whose further condition \<open>stricter\<close> the spec leaves open. That the bounds
  parse under the recognised format is the normaliser's part.\<close>

definition spec_validTimestamps :: "(Query \<Rightarrow> bool) \<Rightarrow> Query \<Rightarrow> bool \<Rightarrow> bool" where
  "spec_validTimestamps stricter q flag =
     ((case (startDate q, endDate q) of
         (Some a, Some b) \<Rightarrow> a \<le> b
       | _ \<Rightarrow> True)
      \<and> (if flag then stricter q else True))"

text \<open>\<open>strconv.Atoi\<close> on decimal digits with an optional sign.\<close>

definition digit_of :: "char \<Rightarrow> nat option" where
  "digit_of c = map_of (zip ''0123456789'' [0, 1, 2, 3, 4, 5, 6, 7, 8, 9]) c"

fun digits_value :: "string \<Rightarrow> nat \<Rightarrow> nat option" where
  "digits_value [] acc = Some acc"
| "digits_value (c # cs) acc =
     (case digit_of c of None \<Rightarrow> None | Some d \<Rightarrow> digits_value cs (10 * acc + d))"

definition Atoi :: "string \<Rightarrow> int option" where
  "Atoi s =
     (case s of
        [] \<Rightarrow> None
      | c # cs \<Rightarrow>
          if c = CHR ''-'' then
            (if cs = [] then None else map_option (\<lambda>n. - int n) (digits_value cs 0))
          else if c = CHR ''+'' then
            (if cs = [] then None else map_option int (digits_value cs 0))
          else map_option int (digits_value s 0))"

text \<open>Modelled from the spec: \<open>initQuery\<close> is declared outside the file. Page and page
  size are positive integers, the page size bounded by a maximum; the sort field and
  direction have defaults; the date bounds parse under one recognised format; the
  recognised filter keys pass through. What the spec leaves open (the defaults, the
  maximum, the format, the filter keys) is the record \<open>normaliser\<close>.\<close>

record normaliser =
  default_page_size :: int
  max_page_size :: int
  default_sort_by :: string
  default_sort_dir :: string
  parse_timestamp :: "string \<Rightarrow> int option"
  filter_keys :: "string list"

definition positive_param :: "request \<Rightarrow> string \<Rightarrow> int \<Rightarrow> string + int" where
  "positive_param r k d =
     (if Query_Get r k = [] then Inr d
      else case Atoi (Query_Get r k) of
             None \<Rightarrow> Inl (''invalid value for '' @ k)
           | Some n \<Rightarrow> if n \<le> 0 then Inl (''invalid value for '' @ k) else Inr n)"

definition date_param :: "normaliser \<Rightarrow> request \<Rightarrow> string \<Rightarrow> string + int option" where
  "date_param n r k =
     (if Query_Get r k = [] then Inr None
      else case parse_timestamp n (Query_Get r k) of
             None \<Rightarrow> Inl (''invalid value for '' @ k)
           | Some t \<Rightarrow> Inr (Some t))"

definition string_param :: "request \<Rightarrow> string \<Rightarrow> string \<Rightarrow> string" where
  "string_param r k d = (if Query_Get r k = [] then d else Query_Get r k)"

definition spec_initQuery :: "normaliser \<Rightarrow> request \<Rightarrow> string + Query" where
  "spec_initQuery n r =
     (case positive_param r ''page'' 1 of
        Inl err \<Rightarrow> Inl err
      | Inr page \<Rightarrow>
          (case positive_param r ''page_size'' (default_page_size n) of
             Inl err \<Rightarrow> Inl err
           | Inr page_size \<Rightarrow>
               if max_page_size n < page_size then Inl ''invalid value for page_size''
               else
                 (case date_param n r ''created_at_from'' of
                    Inl err \<Rightarrow> Inl err
                  | Inr from \<Rightarrow>
                      (case date_param n r ''created_at_to'' of
                         Inl err \<Rightarrow> Inl err
                       | Inr to \<Rightarrow>
                           Inr \<lparr>Page = page, PageSize = page_size,
                                SortBy = string_param r ''sort_by'' (default_sort_by n),
                                SortDir = string_param r ''sort_dir'' (default_sort_dir n),
                                startDate = from, endDate = to,
                                freeTextFilters =
                                  filter (\<lambda>(k, v). k \<in> set (filter_keys n))
                                    (query_params r)\<rparr>))))"

subsection \<open>An example deployment\<close>

text \<open>A concrete environment on which the handlers can be run. The storage collaborator
  holds 35 payload records and two status records for the correlation id \<open>req-1\<close>; the
  storage broker answers on six URLs; the identity claim \<open>alice\<close> holds the download
  role and \<open>bob\<close> holds none; the archive-link struct has the single field \<open>url\<close>.\<close>

definition example_normaliser :: normaliser where
  "example_normaliser =
     \<lparr>default_page_size = 10, max_page_size = 100, default_sort_by = ''date'',
      default_sort_dir = ''desc'', parse_timestamp = Atoi,
      filter_keys = [''account'', ''status'']\<rparr>"

definition example_records :: "payload list" where
  "example_records = map (\<lambda>i. JObject [(''id'', JInt (int i))]) [0..<35]"

definition example_RetrievePayloads :: "int \<Rightarrow> int \<Rightarrow> Query \<Rightarrow> int \<times> payload list option" where
  "example_RetrievePayloads page page_size q =
     (int (length example_records),
      Some (take (nat page_size) (drop (nat ((page - 1) * page_size)) example_records)))"

definition example_RetrieveRequestIdPayloads ::
  "string \<Rightarrow> string \<Rightarrow> string \<Rightarrow> string \<Rightarrow> payload list option" where
  "example_RetrieveRequestIdPayloads reqID sort_by sort_dir verb =
     (if reqID = ''req-1'' then
        Some [JObject [(''status'', JString ''received'')],
              JObject [(''status'', JString ''success'')]]
      else if reqID = ''req-2'' then Some []
      else None)"

definition example_roles :: "(string \<times> string list) list" where
  "example_roles = [(''alice'', [''platform-archive-download'']), (''bob'', [])]"

definition example_identityHasRole :: "request \<Rightarrow> string \<Rightarrow> bool" where
  "example_identityHasRole r role =
     (case map_of example_roles (Header_Get r ''x-rh-identity'') of
        None \<Rightarrow> False
      | Some roles \<Rightarrow> role \<in> set roles)"

definition example_decode :: "string \<Rightarrow> json option" where
  "example_decode =
     map_of [(''{\"url\":\"https://archive/req-1\"}'',
                JObject [(''url'', JString ''https://archive/req-1'')]),
             (''{\"url\":\"\"}'', JObject [(''url'', JString [])]),
             (''{\"url\":\"https://archive/req-5\",\"expires\":60}'',
                JObject [(''url'', JString ''https://archive/req-5''), (''expires'', JInt 60)]),
             (''{\"url\":5}'', JObject [(''url'', JInt 5)]),
             (''{}'', JObject []),
             (''[]'', JArray []),
             (''null'', JNull)]"

definition example_broker :: "(string \<times> http_response) list" where
  "example_broker =
     [(''http://storage-broker/archive/url?request_id=req-1'',
         \<lparr>StatusCode = 200, Body = Inr ''{\"url\":\"https://archive/req-1\"}''\<rparr>),
      (''http://storage-broker/archive/url?request_id=req-2'',
         \<lparr>StatusCode = 200, Body = Inr ''{}''\<rparr>),
      (''http://storage-broker/archive/url?request_id=req-3'',
         \<lparr>StatusCode = 200, Body = Inr ''[]''\<rparr>),
      (''http://storage-broker/archive/url?request_id=req-4'',
         \<lparr>StatusCode = 404, Body = Inr ''{\"url\":\"\"}''\<rparr>),
      (''http://storage-broker/archive/url?request_id=req-5'',
         \<lparr>StatusCode = 200,
          Body = Inr ''{\"url\":\"https://archive/req-5\",\"expires\":60}''\<rparr>),
      (''http://storage-broker/archive/url?request_id=req-6'',
         \<lparr>StatusCode = 200, Body = Inr ''{\"url\":5}''\<rparr>)]"

definition example_client_Do :: "out_request \<Rightarrow> string + http_response" where
  "example_client_Do req =
     (case map_of example_broker (URL req) of
        None \<Rightarrow> Inl ''dial tcp: connection refused''
      | Some response \<Rightarrow> Inr response)"

definition example_env :: env where
  "example_env =
     \<lparr>initQuery = spec_initQuery example_normaliser,
      validAllSortBy = [''created_at'', ''updated_at''],
      validIDSortBy = [''created_at'', ''date''],
      validTimestamps = spec_validTimestamps (\<lambda>q. True),
      identityHasRole = example_identityHasRole,
      RetrievePayloads = example_RetrievePayloads,
      RetrieveRequestIdPayloads = example_RetrieveRequestIdPayloads,
      CalculateDurations = (\<lambda>ps. JObject []),
      time_Since = (\<lambda>n. 1500000 + int n),
      json_Marshal_error = (\<lambda>v. None),
      json_Unmarshal_link = go_Unmarshal_struct example_decode [''url''],
      StorageBrokerURL = ''http://storage-broker/archive/url'',
      url_Parse_error = go_url_Parse_error,
      client_Do = example_client_Do\<rparr>"

text \<open>The same deployment with an archive-link struct of the two fields \<open>url\<close> and
  \<open>etag\<close>, and a broker that sends them in the other order.\<close>

definition two_field_env :: env where
  "two_field_env =
     example_env
       \<lparr>json_Unmarshal_link :=
          go_Unmarshal_struct
            (map_of [(''{\"etag\":\"abc\",\"url\":\"https://archive/req-1\"}'',
                      JObject [(''etag'', JString ''abc''),
                               (''url'', JString ''https://archive/req-1'')])])
            [''url'', ''etag''],
        client_Do :=
          (\<lambda>req. Inr \<lparr>StatusCode = 200,
                         Body = Inr ''{\"etag\":\"abc\",\"url\":\"https://archive/req-1\"}''\<rparr>)\<rparr>"

text \<open>The state at program start: \<open>verbosity\<close> is initialised to "0".\<close>

definition init_state :: state where
  "init_state = \<lparr>verbosity = ''0'', trace = []\<rparr>"

definition example_request ::
  "(string \<times> string) list \<Rightarrow> string \<Rightarrow> string \<Rightarrow> request" where
  "example_request qs reqID identity =
     \<lparr>query_params = qs, url_params = [(''request_id'', reqID)],
      header = [(''x-rh-identity'', identity)]\<rparr>"

section \<open>Properties\<close>

subsection \<open>Auxiliary facts\<close>

lemma stringInSlice_iff: "stringInSlice a xs = (a \<in> set xs)"
  by (induction xs) auto

lemma sublist_strings_Join: "m \<in> set xs \<Longrightarrow> sublist m (strings_Join xs sep)"
  by (induction xs sep rule: strings_Join.induct) (auto simp: sublist_append)

lemma sublist_prefixed_Join: "m \<in> set xs \<Longrightarrow> sublist m (p @ strings_Join xs sep)"
  by (simp add: sublist_append sublist_strings_Join)

lemma responses_append: "responses (xs @ ys) = responses xs @ responses ys"
  by (induction xs rule: responses.induct) auto

lemmas handler_defs = writeResponse_def emit_def getErrorBody_def json_Marshal_def
  stringInSlice_iff Let_def

lemmas example_defs = example_env_def example_request_def init_state_def
  Query_Get_def URLParam_def Header_Get_def first_value_def
  spec_initQuery_def example_normaliser_def positive_param_def date_param_def string_param_def
  Atoi_def digit_of_def spec_validTimestamps_def validSortDir_def
  example_RetrieveRequestIdPayloads_def example_identityHasRole_def example_roles_def





lemma map_fst_set_field: "map fst (set_field k v l) = map fst l"
  by (induction l) (auto simp: set_field_def)

lemma map_of_set_field:
  "map_of (set_field k v l) = (if k \<in> fst ` set l then (map_of l)(k \<mapsto> v) else map_of l)"
  by (induction l) (auto simp: set_field_def fun_upd_twist)

lemma decode_member_string:
  "k \<in> set fs \<Longrightarrow> is_JString v \<Longrightarrow>
   decode_member fs (None, l) (k, v) = (None, set_field k v l)"
  by (cases v) (simp_all add: find_field_def is_JString_def)

lemma foldl_decode_strings:
  "\<forall>m \<in> set ms. fst m \<in> set fs \<and> is_JString (snd m) \<Longrightarrow>
   foldl (decode_member fs) (None, l) ms
     = (None, foldl (\<lambda>l m. set_field (fst m) (snd m) l) l ms)"
proof (induction ms arbitrary: l)
  case Nil
  then show ?case by simp
next
  case (Cons m ms)
  obtain k v where m: "m = (k, v)" by (cases m)
  with Cons.prems have "k \<in> set fs" "is_JString v" by auto
  then have "decode_member fs (None, l) m = (None, set_field k v l)"
    unfolding m by (rule decode_member_string)
  with Cons show ?case by (simp add: m)
qed

lemma foldl_set_field:
  "fst ` set ms \<subseteq> fst ` set l \<Longrightarrow>
   map fst (foldl (\<lambda>l m. set_field (fst m) (snd m) l) l ms) = map fst l
   \<and> map_of (foldl (\<lambda>l m. set_field (fst m) (snd m) l) l ms) = map_of l ++ map_of (rev ms)"
proof (induction ms arbitrary: l)
  case Nil
  then show ?case by simp
next
  case (Cons m ms)
  obtain k v where m: "m = (k, v)" by (cases m)
  let ?l = "set_field k v l"
  have keys: "fst ` set ?l = fst ` set l"
    using map_fst_set_field [of k v l] by (metis set_map)
  with Cons.prems have sub: "fst ` set ms \<subseteq> fst ` set ?l" by simp
  have k: "k \<in> fst ` set l" using Cons.prems by (auto simp: m)
  from Cons.IH [OF sub]
  have ih1: "map fst (foldl (\<lambda>l m. set_field (fst m) (snd m) l) ?l ms) = map fst ?l"
    and ih2: "map_of (foldl (\<lambda>l m. set_field (fst m) (snd m) l) ?l ms)
                = map_of ?l ++ map_of (rev ms)"
    by simp_all
  have "map_of ?l ++ map_of (rev ms) = map_of l ++ map_of (rev (m # ms))"
    using k by (simp add: map_of_set_field m map_add_upd_left fun_eq_iff map_add_def
        split: option.splits)
  with ih1 ih2 show ?case by (simp add: m map_fst_set_field)
qed

lemma map_of_rev_distinct: "distinct (map fst xs) \<Longrightarrow> map_of (rev xs) = map_of xs"
proof (induction xs)
  case Nil
  then show ?case by simp
next
  case (Cons m xs)
  obtain k v where m: "m = (k, v)" by (cases m)
  from Cons.prems have fresh: "k \<notin> fst ` set xs" and d: "distinct (map fst xs)"
    by (auto simp: m)
  from fresh have none: "map_of (rev xs) k = None"
    by (simp add: map_of_eq_None_iff)
  have "map_of (rev (m # xs)) x = map_of (m # xs) x" for x
    using Cons.IH [OF d] none by (cases "x = k") (auto simp: m map_add_def split: option.splits)
  then show ?case by (rule ext)
qed

lemma map_of_map_prod:
  "map_of (map (map_prod id g) xs) k = map_option g (map_of xs k)"
  by (induction xs) auto

lemma json_equiv_string_objects:
  assumes "set (map fst ms) = set (map fst ns)"
    and "\<forall>k \<in> set (map fst ms).
           \<exists>x. map_of (rev ms) k = Some (JString x) \<and> map_of (rev ns) k = Some (JString x)"
  shows "json_equiv (JObject ms) (JObject ns)"
proof -
  have m: "map_of (rev (map (map_prod id json_equiv) ms)) k
             = map_option json_equiv (map_of (rev ms) k)" for k
    by (simp only: rev_map map_of_map_prod)
  have "list_all
          (\<lambda>k. case (map_of (rev (map (map_prod id json_equiv) ms)) k, map_of (rev ns) k) of
                 (Some p, Some v) \<Rightarrow> p v
               | _ \<Rightarrow> False)
          (map fst ms)"
    unfolding list_all_iff
  proof
    fix k assume "k \<in> set (map fst ms)"
    with assms(2) obtain x where "map_of (rev ms) k = Some (JString x)"
      and "map_of (rev ns) k = Some (JString x)" by blast
    then show "case (map_of (rev (map (map_prod id json_equiv) ms)) k, map_of (rev ns) k) of
                 (Some p, Some v) \<Rightarrow> p v
               | _ \<Rightarrow> False"
      by (simp add: m)
  qed
  with assms(1) show ?thesis by simp
qed

lemma go_Unmarshal_struct_shape:
  assumes "distinct fs"
    and "dec body = Some (JObject ms)"
    and "set (map fst ms) = set fs"
    and "list_all (\<lambda>m. is_JString (snd m)) ms"
  shows "\<exists>link. go_Unmarshal_struct dec fs body = Inr link
           \<and> json_equiv (JObject link) (JObject ms) \<and> json_equiv (JObject ms) (JObject link)"
proof -
  let ?link = "foldl (\<lambda>l m. set_field (fst m) (snd m) l) (zero_struct fs) ms"
  have keys0: "map fst (zero_struct fs) = fs" by (simp add: zero_struct_def comp_def)
  have all: "\<forall>m \<in> set ms. fst m \<in> set fs \<and> is_JString (snd m)"
    using assms(3,4) by (auto simp: list_all_iff)
  have fold: "foldl (decode_member fs) (None, zero_struct fs) ms = (None, ?link)"
    using all by (rule foldl_decode_strings)
  have dec: "go_Unmarshal_struct dec fs body = Inr ?link"
    using assms(2) fold by (simp add: go_Unmarshal_struct_def)
  have sub: "fst ` set ms \<subseteq> fst ` set (zero_struct fs)"
    using assms(3) keys0 by (metis set_map subset_refl)
  from foldl_set_field [OF sub]
  have keys: "map fst ?link = fs"
    and vals: "map_of ?link = map_of (zero_struct fs) ++ map_of (rev ms)"
    by (simp_all add: keys0)
  have dl: "distinct (map fst ?link)" using keys assms(1) by simp
  have last: "\<exists>x. map_of (rev ms) k = Some (JString x) \<and> map_of (rev ?link) k = Some (JString x)"
    if "k \<in> set fs" for k
  proof -
    from that assms(3) have "k \<in> fst ` set (rev ms)" by (metis set_map set_rev)
    then obtain v where v: "map_of (rev ms) k = Some v"
      by (metis domD dom_map_of_conv_image_fst)
    then have "(k, v) \<in> set ms" by (metis map_of_SomeD set_rev)
    with assms(4) have "is_JString v" by (auto simp: list_all_iff)
    then obtain x where x: "v = JString x" by (cases v) (simp_all add: is_JString_def)
    have "map_of (rev ?link) k = map_of ?link k"
      using dl by (simp add: map_of_rev_distinct)
    also have "\<dots> = Some v" using v by (simp add: vals map_add_def)
    finally show ?thesis using v x by simp
  qed
  have ks: "set (map fst ms) = set (map fst ?link)" using assms(3) keys by simp
  have v1: "\<forall>k \<in> set (map fst ms).
              \<exists>x. map_of (rev ms) k = Some (JString x)
                  \<and> map_of (rev ?link) k = Some (JString x)"
    using last assms(3) by blast
  have v2: "\<forall>k \<in> set (map fst ?link).
              \<exists>x. map_of (rev ?link) k = Some (JString x)
                  \<and> map_of (rev ms) k = Some (JString x)"
    using last keys by (metis (no_types, lifting))
  have e1: "json_equiv (JObject ms) (JObject ?link)"
    using ks v1 by (rule json_equiv_string_objects)
  have e2: "json_equiv (JObject ?link) (JObject ms)"
    using ks [symmetric] v2 by (rule json_equiv_string_objects)
  from dec e2 e1 show ?thesis by blast
qed

lemma set_field_strings:
  "is_JString v \<Longrightarrow> list_all (\<lambda>m. is_JString (snd m)) l \<Longrightarrow>
   list_all (\<lambda>m. is_JString (snd m)) (set_field k v l)"
  by (induction l) (auto simp: set_field_def)

lemma foldl_set_field_strings:
  "list_all (\<lambda>m. is_JString (snd m)) ms \<Longrightarrow> list_all (\<lambda>m. is_JString (snd m)) l \<Longrightarrow>
   list_all (\<lambda>m. is_JString (snd m)) (foldl (\<lambda>l m. set_field (fst m) (snd m) l) l ms)"
  by (induction ms arbitrary: l) (auto simp: set_field_strings)

lemma zero_struct_strings: "list_all (\<lambda>m. is_JString (snd m)) (zero_struct fs)"
  by (induction fs) (auto simp: zero_struct_def is_JString_def)

lemma go_Unmarshal_struct_strings:
  assumes "dec body = Some (JObject ms)"
    and "set (map fst ms) = set fs"
    and "list_all (\<lambda>m. is_JString (snd m)) ms"
    and "go_Unmarshal_struct dec fs body = Inr link"
  shows "list_all (\<lambda>m. is_JString (snd m)) link"
proof -
  have all: "\<forall>m \<in> set ms. fst m \<in> set fs \<and> is_JString (snd m)"
    using assms(2,3) by (auto simp: list_all_iff)
  have "foldl (decode_member fs) (None, zero_struct fs) ms
          = (None, foldl (\<lambda>l m. set_field (fst m) (snd m) l) (zero_struct fs) ms)"
    using all by (rule foldl_decode_strings)
  with assms(1,4)
  have "link = foldl (\<lambda>l m. set_field (fst m) (snd m) l) (zero_struct fs) ms"
    by (simp add: go_Unmarshal_struct_def)
  with assms(3) show ?thesis
    by (simp add: foldl_set_field_strings zero_struct_strings)
qed

lemma spec_initQuery_bad_date:
  assumes "(Query_Get r ''created_at_from'' \<noteq> []
             \<and> parse_timestamp n (Query_Get r ''created_at_from'') = None)
           \<or> (Query_Get r ''created_at_to'' \<noteq> []
             \<and> parse_timestamp n (Query_Get r ''created_at_to'') = None)"
  shows "\<exists>err. spec_initQuery n r = Inl err"
  using assms
  by (auto simp: spec_initQuery_def date_param_def split: sum.splits option.splits)

subsection \<open>The archive-link gate\<close>

text \<open>Claim C1. An archive-link request whose caller does not hold the role
  platform-archive-download is answered 401 with the body of message "Unauthorized" and
  nothing else happens: the handler appends exactly that one response to the trace, so it
  neither constructs nor issues the request to the storage broker, and the body names
  neither the role nor a reason.\<close>

theorem C1_unauthorized:
  assumes "\<not> identityHasRole e r ''platform-archive-download''"
  shows "PayloadArchiveLink e r s =
           s\<lparr>trace := trace s @
              [WriteResponse 401
                 (JObject [(''message'', JString ''Unauthorized''), (''status'', JInt 401)])]\<rparr>"
  using assms by (simp add: PayloadArchiveLink_def writeResponse_def emit_def getErrorBody_def)

theorem C1_unauthorized_witness:
  "\<not> identityHasRole example_env (example_request [] ''req-1'' ''bob'') ''platform-archive-download''
   \<and> PayloadArchiveLink example_env (example_request [] ''req-1'' ''bob'') init_state =
       \<lparr>verbosity = ''0'', trace = [WriteResponse 401
                 (JObject [(''message'', JString ''Unauthorized''), (''status'', JInt 401)])]\<rparr>"
proof -
  have h: "\<not> identityHasRole example_env (example_request [] ''req-1'' ''bob'')
               ''platform-archive-download''"
    by (simp add: example_env_def example_identityHasRole_def example_request_def
        Header_Get_def first_value_def example_roles_def)
  show ?thesis
    using h C1_unauthorized [OF h, of init_state] by (simp add: init_state_def)
qed

subsection \<open>The archive-link pass-through\<close>

text \<open>Claim C2, as stated, fails. The handler decodes the body into the struct
  PayloadArchiveLink and encodes the struct again. A body that is valid JSON but not an
  object (the array \<open>[]\<close>) is answered 500; an object without the struct's field
  (\<open>{}\<close>) is answered 200 with the zero-valued struct; an object with a member that is
  no field of the struct is answered 200 without that member; an object whose member has
  not the field's type is answered 500. The two 200 bodies are not semantically equal to
  the bodies received.\<close>

theorem C2_counterexample:
  "identityHasRole example_env (example_request [] ''req-3'' ''alice'')
     ''platform-archive-download''
   \<and> client_Do example_env
       \<lparr>Method = ''GET'', URL = ''http://storage-broker/archive/url?request_id=req-3'',
        Header = [(''x-rh-identity'', ''alice'')]\<rparr>
       = Inr \<lparr>StatusCode = 200, Body = Inr ''[]''\<rparr>
   \<and> example_decode ''[]'' = Some (JArray [])
   \<and> trace (PayloadArchiveLink example_env (example_request [] ''req-3'' ''alice'') init_state) =
       [NewRequest ''GET'' ''http://storage-broker/archive/url?request_id=req-3'',
        ClientDo \<lparr>Method = ''GET'', URL = ''http://storage-broker/archive/url?request_id=req-3'',
                  Header = [(''x-rh-identity'', ''alice'')]\<rparr>,
        LogError ''json: cannot unmarshal into Go value of type structs.PayloadArchiveLink'',
        WriteResponse 500
          (JObject [(''message'', JString ''Error unmarshaling the response''),
                    (''status'', JInt 500)])]
   \<and> client_Do example_env
       \<lparr>Method = ''GET'', URL = ''http://storage-broker/archive/url?request_id=req-2'',
        Header = [(''x-rh-identity'', ''alice'')]\<rparr>
       = Inr \<lparr>StatusCode = 200, Body = Inr ''{}''\<rparr>
   \<and> example_decode ''{}'' = Some (JObject [])
   \<and> trace (PayloadArchiveLink example_env (example_request [] ''req-2'' ''alice'') init_state) =
       [NewRequest ''GET'' ''http://storage-broker/archive/url?request_id=req-2'',
        ClientDo \<lparr>Method = ''GET'', URL = ''http://storage-broker/archive/url?request_id=req-2'',
                  Header = [(''x-rh-identity'', ''alice'')]\<rparr>,
        LogInfo ''req-2'' ''alice'' ''{}'',
        WriteResponse 200 (JObject [(''url'', JString [])])]
   \<and> \<not> json_equiv (JObject [(''url'', JString [])]) (JObject [])
   \<and> \<not> json_equiv (JObject []) (JObject [(''url'', JString [])])
   \<and> client_Do example_env
       \<lparr>Method = ''GET'', URL = ''http://storage-broker/archive/url?request_id=req-5'',
        Header = [(''x-rh-identity'', ''alice'')]\<rparr>
       = Inr \<lparr>StatusCode = 200,
              Body = Inr ''{\"url\":\"https://archive/req-5\",\"expires\":60}''\<rparr>
   \<and> example_decode ''{\"url\":\"https://archive/req-5\",\"expires\":60}''
       = Some (JObject [(''url'', JString ''https://archive/req-5''), (''expires'', JInt 60)])
   \<and> trace (PayloadArchiveLink example_env (example_request [] ''req-5'' ''alice'') init_state) =
       [NewRequest ''GET'' ''http://storage-broker/archive/url?request_id=req-5'',
        ClientDo \<lparr>Method = ''GET'', URL = ''http://storage-broker/archive/url?request_id=req-5'',
                  Header = [(''x-rh-identity'', ''alice'')]\<rparr>,
        LogInfo ''req-5'' ''alice'' ''{\"url\":\"https://archive/req-5\",\"expires\":60}'',
        WriteResponse 200 (JObject [(''url'', JString ''https://archive/req-5'')])]
   \<and> \<not> json_equiv (JObject [(''url'', JString ''https://archive/req-5'')])
          (JObject [(''url'', JString ''https://archive/req-5''), (''expires'', JInt 60)])
   \<and> \<not> json_equiv
          (JObject [(''url'', JString ''https://archive/req-5''), (''expires'', JInt 60)])
          (JObject [(''url'', JString ''https://archive/req-5'')])
   \<and> client_Do example_env
       \<lparr>Method = ''GET'', URL = ''http://storage-broker/archive/url?request_id=req-6'',
        Header = [(''x-rh-identity'', ''alice'')]\<rparr>
       = Inr \<lparr>StatusCode = 200, Body = Inr ''{\"url\":5}''\<rparr>
   \<and> example_decode ''{\"url\":5}'' = Some (JObject [(''url'', JInt 5)])
   \<and> trace (PayloadArchiveLink example_env (example_request [] ''req-6'' ''alice'') init_state) =
       [NewRequest ''GET'' ''http://storage-broker/archive/url?request_id=req-6'',
        ClientDo \<lparr>Method = ''GET'', URL = ''http://storage-broker/archive/url?request_id=req-6'',
                  Header = [(''x-rh-identity'', ''alice'')]\<rparr>,
        LogError ''json: cannot unmarshal into Go struct field'',
        WriteResponse 500
          (JObject [(''message'', JString ''Error unmarshaling the response''),
                    (''status'', JInt 500)])]"
  by (simp add: example_defs PayloadArchiveLink_def handler_defs http_NewRequest_def
      go_url_Parse_error_def stringContainsCTLByte_def Header_Add_def example_client_Do_def
      example_broker_def go_Unmarshal_struct_def example_decode_def zero_struct_def
      find_field_def set_field_def EqualFold_def ascii_lower_def)

text \<open>Claim C2, amended. For an authorized request, when the broker's body denotes an
  object of the archive-link shape, that is, its members are the fields of the struct,
  in any order, with string values, the handler answers 200 with a body that is
  semantically equal to the body it received. A written body is represented by the value
  it denotes, so the decoding of the output is the value written; the encoder is taken
  not to fail on an object of strings.\<close>

theorem C2_round_trip:
  assumes "identityHasRole e r ''platform-archive-download''"
    and "url = StorageBrokerURL e @ ''?request_id='' @ URLParam r ''request_id''"
    and "url_Parse_error e url = None"
    and "req = \<lparr>Method = ''GET'', URL = url,
                 Header = [(''x-rh-identity'', Header_Get r ''x-rh-identity'')]\<rparr>"
    and "client_Do e req = Inr \<lparr>StatusCode = code, Body = Inr body\<rparr>"
    and "json_Unmarshal_link e = go_Unmarshal_struct dec fs"
    and "distinct fs"
    and "dec body = Some (JObject ms)"
    and "set (map fst ms) = set fs"
    and "list_all (\<lambda>m. is_JString (snd m)) ms"
    and "\<forall>l. list_all (\<lambda>m. is_JString (snd m)) l \<longrightarrow> json_Marshal_error e (JObject l) = None"
  shows "\<exists>out. trace (PayloadArchiveLink e r s) =
           trace s @
             [NewRequest ''GET'' url, ClientDo req,
              LogInfo (URLParam r ''request_id'') (Header_Get r ''x-rh-identity'') body,
              WriteResponse 200 out]
         \<and> json_equiv out (JObject ms) \<and> json_equiv (JObject ms) out"
proof -
  from go_Unmarshal_struct_shape [of fs dec body ms] assms(7,8,9,10)
  obtain link where d: "go_Unmarshal_struct dec fs body = Inr link"
    and e1: "json_equiv (JObject link) (JObject ms)"
    and e2: "json_equiv (JObject ms) (JObject link)"
    by blast
  have "list_all (\<lambda>m. is_JString (snd m)) link"
    using assms(8,9,10) d by (rule go_Unmarshal_struct_strings)
  with assms(11) have enc: "json_Marshal_error e (JObject link) = None" by blast
  have u: "json_Unmarshal_link e body = Inr link" using assms(6) d by simp
  have "trace (PayloadArchiveLink e r s) =
           trace s @
             [NewRequest ''GET'' url, ClientDo req,
              LogInfo (URLParam r ''request_id'') (Header_Get r ''x-rh-identity'') body,
              WriteResponse 200 (JObject link)]"
    using assms(1,2,3,4,5) u enc
    by (simp add: PayloadArchiveLink_def handler_defs http_NewRequest_def Header_Add_def)
  with e1 e2 show ?thesis by blast
qed

theorem C2_round_trip_witness:
  "(\<exists>out. trace (PayloadArchiveLink example_env (example_request [] ''req-1'' ''alice'')
                  init_state) =
     [NewRequest ''GET'' ''http://storage-broker/archive/url?request_id=req-1'',
      ClientDo \<lparr>Method = ''GET'', URL = ''http://storage-broker/archive/url?request_id=req-1'',
                Header = [(''x-rh-identity'', ''alice'')]\<rparr>,
      LogInfo ''req-1'' ''alice'' ''{\"url\":\"https://archive/req-1\"}'',
      WriteResponse 200 out]
   \<and> json_equiv out (JObject [(''url'', JString ''https://archive/req-1'')])
   \<and> json_equiv (JObject [(''url'', JString ''https://archive/req-1'')]) out)
   \<and> trace (PayloadArchiveLink two_field_env (example_request [] ''req-1'' ''alice'') init_state) =
     [NewRequest ''GET'' ''http://storage-broker/archive/url?request_id=req-1'',
      ClientDo \<lparr>Method = ''GET'', URL = ''http://storage-broker/archive/url?request_id=req-1'',
                Header = [(''x-rh-identity'', ''alice'')]\<rparr>,
      LogInfo ''req-1'' ''alice'' ''{\"etag\":\"abc\",\"url\":\"https://archive/req-1\"}'',
      WriteResponse 200
        (JObject [(''url'', JString ''https://archive/req-1''), (''etag'', JString ''abc'')])]
   \<and> json_equiv
        (JObject [(''url'', JString ''https://archive/req-1''), (''etag'', JString ''abc'')])
        (JObject [(''etag'', JString ''abc''), (''url'', JString ''https://archive/req-1'')])"
proof -
  have first: "\<exists>out. trace (PayloadArchiveLink example_env (example_request [] ''req-1'' ''alice'')
                  init_state) =
     [NewRequest ''GET'' ''http://storage-broker/archive/url?request_id=req-1'',
      ClientDo \<lparr>Method = ''GET'', URL = ''http://storage-broker/archive/url?request_id=req-1'',
                Header = [(''x-rh-identity'', ''alice'')]\<rparr>,
      LogInfo ''req-1'' ''alice'' ''{\"url\":\"https://archive/req-1\"}'',
      WriteResponse 200 out]
   \<and> json_equiv out (JObject [(''url'', JString ''https://archive/req-1'')])
   \<and> json_equiv (JObject [(''url'', JString ''https://archive/req-1'')]) out"
  proof -
    let ?r = "example_request [] ''req-1'' ''alice''"
    let ?url = "''http://storage-broker/archive/url?request_id=req-1''"
    let ?req = "\<lparr>Method = ''GET'', URL = ?url, Header = [(''x-rh-identity'', ''alice'')]\<rparr>"
    let ?body = "''{\"url\":\"https://archive/req-1\"}''"
    let ?ms = "[(''url'', JString ''https://archive/req-1'')]"
    have a: "identityHasRole example_env ?r ''platform-archive-download''"
      by (simp add: example_defs)
    have b: "?url = StorageBrokerURL example_env @ ''?request_id='' @ URLParam ?r ''request_id''"
      by (simp add: example_defs)
    have c: "url_Parse_error example_env ?url = None"
      by (simp add: example_env_def go_url_Parse_error_def stringContainsCTLByte_def)
    have d: "?req = \<lparr>Method = ''GET'', URL = ?url,
                   Header = [(''x-rh-identity'', Header_Get ?r ''x-rh-identity'')]\<rparr>"
      by (simp add: example_defs)
    have f: "client_Do example_env ?req = Inr \<lparr>StatusCode = 200, Body = Inr ?body\<rparr>"
      by (simp add: example_env_def example_client_Do_def example_broker_def)
    have g: "json_Unmarshal_link example_env = go_Unmarshal_struct example_decode [''url'']"
      by (simp add: example_env_def)
    have h: "distinct [''url'']" by simp
    have i: "example_decode ?body = Some (JObject ?ms)"
      by (simp add: example_decode_def)
    have j: "set (map fst ?ms) = set [''url'']" by simp
    have k: "list_all (\<lambda>m. is_JString (snd m)) ?ms" by (simp add: is_JString_def)
    have l: "\<forall>l. list_all (\<lambda>m. is_JString (snd m)) l
                 \<longrightarrow> json_Marshal_error example_env (JObject l) = None"
      by (simp add: example_env_def)
    show ?thesis
      using C2_round_trip [where e = example_env and r = ?r and url = ?url and req = ?req
          and code = 200 and body = ?body and dec = example_decode and fs = "[''url'']"
          and ms = ?ms and s = init_state, OF a b c d f g h i j k l]
      by (simp add: example_defs)
  qed
  have second: "trace (PayloadArchiveLink two_field_env (example_request [] ''req-1'' ''alice'') init_state) =
     [NewRequest ''GET'' ''http://storage-broker/archive/url?request_id=req-1'',
      ClientDo \<lparr>Method = ''GET'', URL = ''http://storage-broker/archive/url?request_id=req-1'',
                Header = [(''x-rh-identity'', ''alice'')]\<rparr>,
      LogInfo ''req-1'' ''alice'' ''{\"etag\":\"abc\",\"url\":\"https://archive/req-1\"}'',
      WriteResponse 200
        (JObject [(''url'', JString ''https://archive/req-1''), (''etag'', JString ''abc'')])]
   \<and> json_equiv
        (JObject [(''url'', JString ''https://archive/req-1''), (''etag'', JString ''abc'')])
        (JObject [(''etag'', JString ''abc''), (''url'', JString ''https://archive/req-1'')])"
  proof -
    let ?e = two_field_env
    let ?r = "example_request [] ''req-1'' ''alice''"
    let ?url = "''http://storage-broker/archive/url?request_id=req-1''"
    let ?req = "\<lparr>Method = ''GET'', URL = ?url, Header = [(''x-rh-identity'', ''alice'')]\<rparr>"
    let ?body = "''{\"etag\":\"abc\",\"url\":\"https://archive/req-1\"}''"
    let ?ms = "[(''etag'', JString ''abc''), (''url'', JString ''https://archive/req-1'')]"
    let ?dec = "map_of [(?body, JObject ?ms)]"
    have a: "identityHasRole ?e ?r ''platform-archive-download''"
      by (simp add: two_field_env_def example_defs)
    have b: "?url = StorageBrokerURL ?e @ ''?request_id='' @ URLParam ?r ''request_id''"
      by (simp add: two_field_env_def example_defs)
    have c: "url_Parse_error ?e ?url = None"
      by (simp add: two_field_env_def example_env_def go_url_Parse_error_def
          stringContainsCTLByte_def)
    have d: "?req = \<lparr>Method = ''GET'', URL = ?url,
                   Header = [(''x-rh-identity'', Header_Get ?r ''x-rh-identity'')]\<rparr>"
      by (simp add: example_defs)
    have f: "client_Do ?e ?req = Inr \<lparr>StatusCode = 200, Body = Inr ?body\<rparr>"
      by (simp add: two_field_env_def)
    have g: "json_Unmarshal_link ?e = go_Unmarshal_struct ?dec [''url'', ''etag'']"
      by (simp add: two_field_env_def)
    have h: "distinct [''url'', ''etag'']" by simp
    have i: "?dec ?body = Some (JObject ?ms)" by simp
    have j: "set (map fst ?ms) = set [''url'', ''etag'']" by auto
    have k: "list_all (\<lambda>m. is_JString (snd m)) ?ms" by (simp add: is_JString_def)
    have l: "\<forall>l. list_all (\<lambda>m. is_JString (snd m)) l
                 \<longrightarrow> json_Marshal_error ?e (JObject l) = None"
      by (simp add: two_field_env_def example_env_def)
    have t: "trace (PayloadArchiveLink ?e ?r init_state) =
       [NewRequest ''GET'' ?url, ClientDo ?req, LogInfo ''req-1'' ''alice'' ?body,
        WriteResponse 200
          (JObject [(''url'', JString ''https://archive/req-1''), (''etag'', JString ''abc'')])]"
      by (simp add: two_field_env_def example_defs PayloadArchiveLink_def handler_defs
          http_NewRequest_def go_url_Parse_error_def stringContainsCTLByte_def Header_Add_def
          go_Unmarshal_struct_def zero_struct_def find_field_def set_field_def)
    from C2_round_trip [where e = ?e and r = ?r and url = ?url and req = ?req
          and code = 200 and body = ?body and dec = ?dec and fs = "[''url'', ''etag'']"
          and ms = ?ms and s = init_state, OF a b c d f g h i j k l]
    obtain out where
      o: "trace (PayloadArchiveLink ?e ?r init_state) =
            trace init_state @ [NewRequest ''GET'' ?url, ClientDo ?req,
              LogInfo (URLParam ?r ''request_id'') (Header_Get ?r ''x-rh-identity'') ?body,
              WriteResponse 200 out]"
      and eq: "json_equiv out (JObject ?ms)"
      by blast
    from o t have "out = JObject [(''url'', JString ''https://archive/req-1''),
                                  (''etag'', JString ''abc'')]"
      by (simp add: init_state_def)
    with eq t show ?thesis by simp
  qed
  from first second show ?thesis by blast
qed

subsection \<open>Timestamps\<close>

text \<open>Claim C3, as stated, fails on /payloads/{request_id}. With a start date after the
  end date, which both variants of the timestamp check reject, the handler still calls the
  collaborator and answers 200: it applies neither variant.\<close>

theorem C3_counterexample:
  "initQuery example_env
     (example_request [(''created_at_from'', ''5''), (''created_at_to'', ''3'')] ''req-1'' [])
     = Inr \<lparr>Page = 1, PageSize = 10, SortBy = ''date'', SortDir = ''desc'',
            startDate = Some 5, endDate = Some 3, freeTextFilters = []\<rparr>
   \<and> \<not> validTimestamps example_env
          \<lparr>Page = 1, PageSize = 10, SortBy = ''date'', SortDir = ''desc'',
           startDate = Some 5, endDate = Some 3, freeTextFilters = []\<rparr> True
   \<and> \<not> validTimestamps example_env
          \<lparr>Page = 1, PageSize = 10, SortBy = ''date'', SortDir = ''desc'',
           startDate = Some 5, endDate = Some 3, freeTextFilters = []\<rparr> False
   \<and> trace (RequestIdPayloads example_env
              (example_request [(''created_at_from'', ''5''), (''created_at_to'', ''3'')]
                 ''req-1'' []) init_state) =
       [CallRetrieveRequestIdPayloads ''req-1'' ''date'' ''desc'' [],
        CallCalculateDurations
          [JObject [(''status'', JString ''received'')],
           JObject [(''status'', JString ''success'')]],
        WriteResponse 200
          (JObject [(''data'', JArray [JObject [(''status'', JString ''received'')],
                                      JObject [(''status'', JString ''success'')]]),
                    (''durations'', JObject [])])]"
  by (simp add: example_defs RequestIdPayloads_def handler_defs len_def elems_def
      PayloadRetrievebyID_def slice_json_def)

text \<open>Claim C3, amended. On both endpoints a supplied date bound must parse under the
  recognised format: otherwise the normaliser fails and the handler answers 400. On
  /payloads the bounds must also satisfy start \<open>\<le>\<close> end: the timestamp check runs with
  the flag false, a start after the end is answered 400 whatever the other parameters
  are, a start not after the end passes the check, and a descriptor the check rejects
  after the sort checks passed is answered 400 "invalid timestamp format provided". The
  handler of /payloads/{request_id} applies neither variant of the check: with a start
  after the end and valid sort parameters it calls the collaborator and writes no 400,
  and it does the same whatever the timestamp check is and whatever date bounds the
  descriptor holds.\<close>

theorem C3_timestamps:
  assumes "initQuery e = spec_initQuery n"
    and "validTimestamps e = spec_validTimestamps stricter"
  shows "((Query_Get r ''created_at_from'' \<noteq> []
             \<and> parse_timestamp n (Query_Get r ''created_at_from'') = None)
           \<or> (Query_Get r ''created_at_to'' \<noteq> []
             \<and> parse_timestamp n (Query_Get r ''created_at_to'') = None) \<longrightarrow>
            (\<exists>message.
                trace (Payloads e r s) =
                  trace s @ [IncRequests, WriteResponse 400 (getErrorBody message 400)]
                \<and> trace (RequestIdPayloads e r s) =
                  trace s @ [WriteResponse 400 (getErrorBody message 400)]))
       \<and> (\<forall>q0 q a b.
             initQuery e r = Inr q0
             \<and> q = (if Query_Get r ''sort_by'' = [] then q0\<lparr>SortBy := ''created_at''\<rparr> else q0)
             \<and> startDate q0 = Some a \<and> endDate q0 = Some b \<longrightarrow>
             (b < a \<longrightarrow>
                (\<exists>message. trace (Payloads e r s) =
                   trace s @ [IncRequests, WriteResponse 400 (getErrorBody message 400)]))
             \<and> (a \<le> b \<and> SortBy q \<in> set (validAllSortBy e) \<and> SortDir q \<in> set validSortDir \<longrightarrow>
                (\<exists>evs. trace (Payloads e r s) =
                   trace s @ [IncRequests, CallRetrievePayloads (Page q) (PageSize q) q] @ evs))
             \<and> (\<not> validTimestamps e q False \<and> SortBy q \<in> set (validAllSortBy e)
                  \<and> SortDir q \<in> set validSortDir \<longrightarrow>
                trace (Payloads e r s) =
                  trace s @
                    [IncRequests,
                     WriteResponse 400
                       (getErrorBody ''invalid timestamp format provided'' 400)])
             \<and> (b < a \<and> SortBy q0 \<in> set (validIDSortBy e) \<and> SortDir q0 \<in> set validSortDir \<longrightarrow>
                (\<exists>evs. trace (RequestIdPayloads e r s) =
                   trace s @
                     [CallRetrieveRequestIdPayloads (URLParam r ''request_id'') (SortBy q0)
                        (SortDir q0) (Query_Get r ''verbosity'')] @ evs
                   \<and> (\<forall>body. WriteResponse 400 body \<notin> set evs))))
       \<and> RequestIdPayloads
             (e\<lparr>validTimestamps := vt,
                initQuery := \<lambda>x. map_sum id (\<lambda>q. q\<lparr>startDate := a', endDate := b'\<rparr>)
                                    (initQuery e x)\<rparr>) r s
           = RequestIdPayloads e r s"
proof -
  have p0: "(Query_Get r ''created_at_from'' \<noteq> []
             \<and> parse_timestamp n (Query_Get r ''created_at_from'') = None)
           \<or> (Query_Get r ''created_at_to'' \<noteq> []
             \<and> parse_timestamp n (Query_Get r ''created_at_to'') = None) \<longrightarrow>
            (\<exists>message.
                trace (Payloads e r s) =
                  trace s @ [IncRequests, WriteResponse 400 (getErrorBody message 400)]
                \<and> trace (RequestIdPayloads e r s) =
                  trace s @ [WriteResponse 400 (getErrorBody message 400)])"
  proof
    assume "(Query_Get r ''created_at_from'' \<noteq> []
             \<and> parse_timestamp n (Query_Get r ''created_at_from'') = None)
           \<or> (Query_Get r ''created_at_to'' \<noteq> []
             \<and> parse_timestamp n (Query_Get r ''created_at_to'') = None)"
    then obtain err where "spec_initQuery n r = Inl err"
      using spec_initQuery_bad_date by blast
    with assms(1) have err: "initQuery e r = Inl err" by simp
    have "trace (Payloads e r s) =
            trace s @ [IncRequests, WriteResponse 400 (getErrorBody err 400)]"
      using err by (simp add: Payloads_def writeResponse_def emit_def Let_def)
    moreover have "trace (RequestIdPayloads e r s) =
            trace s @ [WriteResponse 400 (getErrorBody err 400)]"
      using err by (simp add: RequestIdPayloads_def writeResponse_def emit_def Let_def)
    ultimately show "\<exists>message.
                trace (Payloads e r s) =
                  trace s @ [IncRequests, WriteResponse 400 (getErrorBody message 400)]
                \<and> trace (RequestIdPayloads e r s) =
                  trace s @ [WriteResponse 400 (getErrorBody message 400)]"
      by blast
  qed
  have p1: "b < a \<longrightarrow>
            (\<exists>message. trace (Payloads e r s) =
               trace s @ [IncRequests, WriteResponse 400 (getErrorBody message 400)])"
    if "initQuery e r = Inr q0" "startDate q0 = Some a" "endDate q0 = Some b" for q0 a b
    using that assms(2)
    by (auto simp: Payloads_def writeResponse_def emit_def stringInSlice_iff Let_def
        spec_validTimestamps_def)
  have p2: "a \<le> b \<and> SortBy q \<in> set (validAllSortBy e) \<and> SortDir q \<in> set validSortDir \<longrightarrow>
            (\<exists>evs. trace (Payloads e r s) =
               trace s @ [IncRequests, CallRetrievePayloads (Page q) (PageSize q) q] @ evs)"
    if "initQuery e r = Inr q0" "startDate q0 = Some a" "endDate q0 = Some b"
      "q = (if Query_Get r ''sort_by'' = [] then q0\<lparr>SortBy := ''created_at''\<rparr> else q0)"
    for q0 q a b
    using that assms(2)
    by (auto simp: Payloads_def handler_defs spec_validTimestamps_def split: option.splits)
  have p3: "\<not> validTimestamps e q False \<and> SortBy q \<in> set (validAllSortBy e)
            \<and> SortDir q \<in> set validSortDir \<longrightarrow>
            trace (Payloads e r s) =
              trace s @
                [IncRequests,
                 WriteResponse 400 (getErrorBody ''invalid timestamp format provided'' 400)]"
    if "initQuery e r = Inr q0"
      "q = (if Query_Get r ''sort_by'' = [] then q0\<lparr>SortBy := ''created_at''\<rparr> else q0)"
    for q0 q
    using that
    by (simp add: Payloads_def writeResponse_def emit_def stringInSlice_iff Let_def)
  have p4: "SortBy q0 \<in> set (validIDSortBy e) \<and> SortDir q0 \<in> set validSortDir \<longrightarrow>
                (\<exists>evs. trace (RequestIdPayloads e r s) =
                   trace s @
                     [CallRetrieveRequestIdPayloads (URLParam r ''request_id'') (SortBy q0)
                        (SortDir q0) (Query_Get r ''verbosity'')] @ evs
                   \<and> (\<forall>body. WriteResponse 400 body \<notin> set evs))"
    if "initQuery e r = Inr q0" for q0
    using that
    by (auto simp: RequestIdPayloads_def handler_defs split: option.splits)
  have p5: "RequestIdPayloads
             (e\<lparr>validTimestamps := vt,
                initQuery := \<lambda>x. map_sum id (\<lambda>q. q\<lparr>startDate := a', endDate := b'\<rparr>)
                                    (initQuery e x)\<rparr>) r s
           = RequestIdPayloads e r s"
    by (cases "initQuery e r")
      (simp_all add: RequestIdPayloads_def json_Marshal_def Let_def)
  from p0 p1 p2 p3 p4 p5 show ?thesis by blast
qed

theorem C3_timestamps_witness:
  "(\<exists>message.
       trace (Payloads example_env
                (example_request [(''created_at_from'', ''yesterday'')] ''req-1'' []) init_state) =
         [IncRequests, WriteResponse 400 (getErrorBody message 400)]
       \<and> trace (RequestIdPayloads example_env
                (example_request [(''created_at_from'', ''yesterday'')] ''req-1'' []) init_state) =
         [WriteResponse 400 (getErrorBody message 400)])
   \<and> trace (Payloads example_env
            (example_request [(''created_at_from'', ''5''), (''created_at_to'', ''3'')] ''req-1'' [])
            init_state) =
     [IncRequests,
      WriteResponse 400
        (JObject [(''message'', JString ''invalid timestamp format provided''),
                  (''status'', JInt 400)])]
   \<and> (\<exists>evs. trace (RequestIdPayloads example_env
            (example_request [(''created_at_from'', ''5''), (''created_at_to'', ''3'')] ''req-1'' [])
            init_state) =
          [CallRetrieveRequestIdPayloads ''req-1'' ''date'' ''desc'' []] @ evs
          \<and> (\<forall>body. WriteResponse 400 body \<notin> set evs))
   \<and> (\<exists>evs. trace (Payloads example_env
            (example_request [(''created_at_from'', ''4''), (''created_at_to'', ''4'')] [] [])
            init_state) =
     [IncRequests,
      CallRetrievePayloads 1 10
        \<lparr>Page = 1, PageSize = 10, SortBy = ''created_at'', SortDir = ''desc'',
         startDate = Some 4, endDate = Some 4, freeTextFilters = []\<rparr>] @ evs)"
proof -
  let ?bad = "example_request [(''created_at_from'', ''yesterday'')] ''req-1'' []"
  let ?r = "example_request [(''created_at_from'', ''5''), (''created_at_to'', ''3'')] ''req-1'' []"
  let ?qc = "\<lparr>Page = 1, PageSize = 10, SortBy = ''date'', SortDir = ''desc'',
             startDate = Some 5, endDate = Some 3, freeTextFilters = []\<rparr>"
  let ?qa = "\<lparr>Page = 1, PageSize = 10, SortBy = ''created_at'', SortDir = ''desc'',
             startDate = Some 5, endDate = Some 3, freeTextFilters = []\<rparr>"
  let ?rb = "example_request [(''created_at_from'', ''4''), (''created_at_to'', ''4'')] [] []"
  let ?qd = "\<lparr>Page = 1, PageSize = 10, SortBy = ''date'', SortDir = ''desc'',
             startDate = Some 4, endDate = Some 4, freeTextFilters = []\<rparr>"
  let ?qb = "\<lparr>Page = 1, PageSize = 10, SortBy = ''created_at'', SortDir = ''desc'',
             startDate = Some 4, endDate = Some 4, freeTextFilters = []\<rparr>"
  have i: "initQuery example_env = spec_initQuery example_normaliser"
    by (simp add: example_env_def)
  have v: "validTimestamps example_env = spec_validTimestamps (\<lambda>q. True)"
    by (simp add: example_env_def)
  note inst = C3_timestamps [OF i v]
  have bad: "Query_Get ?bad ''created_at_from'' \<noteq> []
             \<and> parse_timestamp example_normaliser (Query_Get ?bad ''created_at_from'') = None"
    by (simp add: example_defs)
  have a: "initQuery example_env ?r = Inr ?qc" by (simp add: example_defs)
  have b: "?qa = (if Query_Get ?r ''sort_by'' = [] then ?qc\<lparr>SortBy := ''created_at''\<rparr> else ?qc)"
    by (simp add: example_defs)
  have a': "initQuery example_env ?rb = Inr ?qd" by (simp add: example_defs)
  have b': "?qb = (if Query_Get ?rb ''sort_by'' = [] then ?qd\<lparr>SortBy := ''created_at''\<rparr> else ?qd)"
    by (simp add: example_defs)
  have f: "SortBy ?qa \<in> set (validAllSortBy example_env) \<and> SortDir ?qa \<in> set validSortDir
           \<and> \<not> validTimestamps example_env ?qa False
           \<and> SortBy ?qc \<in> set (validIDSortBy example_env) \<and> SortDir ?qc \<in> set validSortDir"
    by (simp add: example_defs)
  have f': "SortBy ?qb \<in> set (validAllSortBy example_env) \<and> SortDir ?qb \<in> set validSortDir"
    by (simp add: example_defs)
  have ids: "URLParam ?r ''request_id'' = ''req-1'' \<and> Query_Get ?r ''verbosity'' = []"
    by (simp add: example_defs)
  have t0: "trace init_state = []" by (simp add: init_state_def)
  have hyp: "initQuery example_env ?r = Inr ?qc
             \<and> ?qa = (if Query_Get ?r ''sort_by'' = [] then ?qc\<lparr>SortBy := ''created_at''\<rparr>
                      else ?qc)
             \<and> startDate ?qc = Some 5 \<and> endDate ?qc = Some 3"
    using a b by simp
  have hyp': "initQuery example_env ?rb = Inr ?qd
             \<and> ?qb = (if Query_Get ?rb ''sort_by'' = [] then ?qd\<lparr>SortBy := ''created_at''\<rparr>
                      else ?qd)
             \<and> startDate ?qd = Some 4 \<and> endDate ?qd = Some 4"
    using a' b' by simp
  note all = inst [THEN conjunct2, THEN conjunct1, rule_format]
  have w1: "\<exists>message.
       trace (Payloads example_env ?bad init_state) =
         trace init_state @ [IncRequests, WriteResponse 400 (getErrorBody message 400)]
       \<and> trace (RequestIdPayloads example_env ?bad init_state) =
         trace init_state @ [WriteResponse 400 (getErrorBody message 400)]"
    using inst [of ?bad init_state, THEN conjunct1] bad by blast
  have w2: "trace (Payloads example_env ?r init_state) =
     trace init_state @
     [IncRequests,
      WriteResponse 400 (getErrorBody ''invalid timestamp format provided'' 400)]"
    using all [of ?r ?qc ?qa 5 3 init_state, OF hyp] f by blast
  have "(3::int) < 5" by simp
  with all [of ?r ?qc ?qa 5 3 init_state, OF hyp] f
  have "\<exists>evs. trace (RequestIdPayloads example_env ?r init_state) =
          trace init_state @
          [CallRetrieveRequestIdPayloads (URLParam ?r ''request_id'') (SortBy ?qc) (SortDir ?qc)
             (Query_Get ?r ''verbosity'')] @ evs
          \<and> (\<forall>body. WriteResponse 400 body \<notin> set evs)"
    by blast
  then have w3: "\<exists>evs. trace (RequestIdPayloads example_env ?r init_state) =
          trace init_state @ [CallRetrieveRequestIdPayloads ''req-1'' ''date'' ''desc'' []] @ evs
          \<and> (\<forall>body. WriteResponse 400 body \<notin> set evs)"
    using ids by simp
  have "(4::int) \<le> 4" by simp
  with all [of ?rb ?qd ?qb 4 4 init_state, OF hyp'] f'
  have "\<exists>evs. trace (Payloads example_env ?rb init_state) =
     trace init_state @ [IncRequests, CallRetrievePayloads (Page ?qb) (PageSize ?qb) ?qb] @ evs"
    by blast
  then have w4: "\<exists>evs. trace (Payloads example_env ?rb init_state) =
     trace init_state @ [IncRequests, CallRetrievePayloads 1 10 ?qb] @ evs"
    by simp
  from w1 w2 w3 w4 show ?thesis
    unfolding t0 by (simp add: getErrorBody_def)
qed

subsection \<open>Sort field whitelist\<close>

text \<open>Claim C4. When the sort field of the descriptor is not in the whitelist of the
  endpoint (validAllSortBy for /payloads, validIDSortBy for /payloads/{request_id}), the
  handler answers 400 with the message "sort_by must be one of " followed by the members
  of that whitelist joined by ", " in the order of the whitelist; every member occurs in
  the message.\<close>

theorem C4_sort_by_whitelist:
  assumes "initQuery e r = Inr q0"
    and "q = (if Query_Get r ''sort_by'' = [] then q0\<lparr>SortBy := ''created_at''\<rparr> else q0)"
  shows "(SortBy q \<notin> set (validAllSortBy e) \<longrightarrow>
            trace (Payloads e r s) =
              trace s @
                [IncRequests,
                 WriteResponse 400
                   (JObject [(''message'',
                                JString (''sort_by must be one of ''
                                           @ strings_Join (validAllSortBy e) '', '')),
                             (''status'', JInt 400)])])
       \<and> (SortBy q0 \<notin> set (validIDSortBy e) \<longrightarrow>
            trace (RequestIdPayloads e r s) =
              trace s @
                [WriteResponse 400
                   (JObject [(''message'',
                                JString (''sort_by must be one of ''
                                           @ strings_Join (validIDSortBy e) '', '')),
                             (''status'', JInt 400)])])
       \<and> (\<forall>m \<in> set (validAllSortBy e).
             sublist m (''sort_by must be one of '' @ strings_Join (validAllSortBy e) '', ''))
       \<and> (\<forall>m \<in> set (validIDSortBy e).
             sublist m (''sort_by must be one of '' @ strings_Join (validIDSortBy e) '', ''))"
proof -
  have a: "SortBy q \<notin> set (validAllSortBy e) \<longrightarrow>
            trace (Payloads e r s) =
              trace s @
                [IncRequests,
                 WriteResponse 400
                   (JObject [(''message'',
                                JString (''sort_by must be one of ''
                                           @ strings_Join (validAllSortBy e) '', '')),
                             (''status'', JInt 400)])]"
    using assms by (simp add: Payloads_def handler_defs)
  have b: "SortBy q0 \<notin> set (validIDSortBy e) \<longrightarrow>
            trace (RequestIdPayloads e r s) =
              trace s @
                [WriteResponse 400
                   (JObject [(''message'',
                                JString (''sort_by must be one of ''
                                           @ strings_Join (validIDSortBy e) '', '')),
                             (''status'', JInt 400)])]"
    using assms by (simp add: RequestIdPayloads_def handler_defs)
  have c: "\<forall>m \<in> set xs. sublist m (''sort_by must be one of '' @ strings_Join xs '', '')"
    for xs
    by (blast intro: sublist_prefixed_Join)
  from a b c show ?thesis by blast
qed

theorem C4_sort_by_whitelist_witness:
  "trace (Payloads example_env (example_request [(''sort_by'', ''bogus_field'')] [] [])
            init_state) =
     [IncRequests,
      WriteResponse 400
        (JObject [(''message'', JString ''sort_by must be one of created_at, updated_at''),
                  (''status'', JInt 400)])]
   \<and> trace (RequestIdPayloads example_env
               (example_request [(''sort_by'', ''bogus_field'')] ''req-1'' []) init_state) =
     [WriteResponse 400
        (JObject [(''message'', JString ''sort_by must be one of created_at, date''),
                  (''status'', JInt 400)])]
   \<and> sublist ''updated_at'' ''sort_by must be one of created_at, updated_at''"
proof -
  let ?r = "example_request [(''sort_by'', ''bogus_field'')] [] []"
  let ?r' = "example_request [(''sort_by'', ''bogus_field'')] ''req-1'' []"
  let ?q = "\<lparr>Page = 1, PageSize = 10, SortBy = ''bogus_field'', SortDir = ''desc'',
             startDate = None, endDate = None, freeTextFilters = []\<rparr>"
  have a: "initQuery example_env ?r = Inr ?q" by (simp add: example_defs)
  have a': "initQuery example_env ?r' = Inr ?q" by (simp add: example_defs)
  have b: "?q = (if Query_Get ?r ''sort_by'' = [] then ?q\<lparr>SortBy := ''created_at''\<rparr> else ?q)"
    by (simp add: example_defs)
  have b': "?q = (if Query_Get ?r' ''sort_by'' = [] then ?q\<lparr>SortBy := ''created_at''\<rparr> else ?q)"
    by (simp add: example_defs)
  have c: "SortBy ?q \<notin> set (validAllSortBy example_env)" by (simp add: example_defs)
  have d: "SortBy ?q \<notin> set (validIDSortBy example_env)" by (simp add: example_defs)
  have m: "''updated_at'' \<in> set (validAllSortBy example_env)" by (simp add: example_defs)
  show ?thesis
    using C4_sort_by_whitelist [OF a b, of init_state] C4_sort_by_whitelist [OF a' b', of init_state]
      c d m
    by (simp add: example_defs)
qed

subsection \<open>Order of the checks\<close>

text \<open>Claim C5, as stated, fails on /payloads/{request_id}: the claim names a timestamp
  step and RetrieveRequestIdPayloads, but that handler has no timestamp step. A descriptor
  with valid sort parameters and a start date after the end date, which the timestamp
  check rejects, reaches the collaborator and is answered 200.\<close>

theorem C5_counterexample:
  "initQuery example_env
     (example_request [(''sort_by'', ''created_at''), (''sort_dir'', ''asc''),
                       (''created_at_from'', ''9''), (''created_at_to'', ''2'')] ''req-1'' [])
     = Inr \<lparr>Page = 1, PageSize = 10, SortBy = ''created_at'', SortDir = ''asc'',
            startDate = Some 9, endDate = Some 2, freeTextFilters = []\<rparr>
   \<and> \<not> validTimestamps example_env
          \<lparr>Page = 1, PageSize = 10, SortBy = ''created_at'', SortDir = ''asc'',
           startDate = Some 9, endDate = Some 2, freeTextFilters = []\<rparr> False
   \<and> \<not> validTimestamps example_env
          \<lparr>Page = 1, PageSize = 10, SortBy = ''created_at'', SortDir = ''asc'',
           startDate = Some 9, endDate = Some 2, freeTextFilters = []\<rparr> True
   \<and> trace (RequestIdPayloads example_env
              (example_request [(''sort_by'', ''created_at''), (''sort_dir'', ''asc''),
                                (''created_at_from'', ''9''), (''created_at_to'', ''2'')]
                 ''req-1'' []) init_state) =
       [CallRetrieveRequestIdPayloads ''req-1'' ''created_at'' ''asc'' [],
        CallCalculateDurations
          [JObject [(''status'', JString ''received'')],
           JObject [(''status'', JString ''success'')]],
        WriteResponse 200
          (JObject [(''data'', JArray [JObject [(''status'', JString ''received'')],
                                      JObject [(''status'', JString ''success'')]]),
                    (''durations'', JObject [])])]"
  by (simp add: example_defs RequestIdPayloads_def handler_defs len_def elems_def
      PayloadRetrievebyID_def slice_json_def)

text \<open>Claim C5, amended. The checks run in the order sort field, sort direction and, on
  /payloads only, timestamps, and stop at the first failure: the trace then holds the one
  400 response of that check and no collaborator call. A sort direction outside asc and
  desc is answered 400. When every check of the endpoint passes the collaborator is
  called; on /payloads/{request_id} these are the two sort checks, whatever the timestamp
  check would say. Each handler writes exactly one response.\<close>

theorem C5_validation_order:
  assumes "initQuery e r = Inr q0"
    and "q = (if Query_Get r ''sort_by'' = [] then q0\<lparr>SortBy := ''created_at''\<rparr> else q0)"
  shows "(SortBy q \<notin> set (validAllSortBy e) \<longrightarrow>
            trace (Payloads e r s) =
              trace s @
                [IncRequests,
                 WriteResponse 400
                   (getErrorBody (''sort_by must be one of ''
                                    @ strings_Join (validAllSortBy e) '', '') 400)])
       \<and> (SortBy q \<in> set (validAllSortBy e) \<and> SortDir q \<notin> {''asc'', ''desc''} \<longrightarrow>
            trace (Payloads e r s) =
              trace s @
                [IncRequests,
                 WriteResponse 400 (getErrorBody ''sort_dir must be one of asc, desc'' 400)])
       \<and> (SortBy q \<in> set (validAllSortBy e) \<and> SortDir q \<in> {''asc'', ''desc''}
            \<and> \<not> validTimestamps e q False \<longrightarrow>
            trace (Payloads e r s) =
              trace s @
                [IncRequests,
                 WriteResponse 400 (getErrorBody ''invalid timestamp format provided'' 400)])
       \<and> (SortBy q \<in> set (validAllSortBy e) \<and> SortDir q \<in> {''asc'', ''desc''}
            \<and> validTimestamps e q False \<longrightarrow>
            (\<exists>evs. trace (Payloads e r s) =
               trace s @ [IncRequests, CallRetrievePayloads (Page q) (PageSize q) q] @ evs))
       \<and> (SortBy q0 \<notin> set (validIDSortBy e) \<longrightarrow>
            trace (RequestIdPayloads e r s) =
              trace s @
                [WriteResponse 400
                   (getErrorBody (''sort_by must be one of ''
                                    @ strings_Join (validIDSortBy e) '', '') 400)])
       \<and> (SortBy q0 \<in> set (validIDSortBy e) \<and> SortDir q0 \<notin> {''asc'', ''desc''} \<longrightarrow>
            trace (RequestIdPayloads e r s) =
              trace s @
                [WriteResponse 400 (getErrorBody ''sort_dir must be one of asc, desc'' 400)])
       \<and> (SortBy q0 \<in> set (validIDSortBy e) \<and> SortDir q0 \<in> {''asc'', ''desc''} \<longrightarrow>
            (\<exists>evs. trace (RequestIdPayloads e r s) =
               trace s @
                 [CallRetrieveRequestIdPayloads (URLParam r ''request_id'') (SortBy q0)
                    (SortDir q0) (Query_Get r ''verbosity'')] @ evs))
       \<and> (SortDir q \<notin> {''asc'', ''desc''} \<longrightarrow>
            (\<exists>message. trace (Payloads e r s) =
               trace s @ [IncRequests, WriteResponse 400 (getErrorBody message 400)]))
       \<and> (SortDir q0 \<notin> {''asc'', ''desc''} \<longrightarrow>
            (\<exists>message. trace (RequestIdPayloads e r s) =
               trace s @ [WriteResponse 400 (getErrorBody message 400)]))
       \<and> RequestIdPayloads (e\<lparr>validTimestamps := vt\<rparr>) r s = RequestIdPayloads e r s
       \<and> length (responses (trace (Payloads e r s))) = length (responses (trace s)) + 1
       \<and> length (responses (trace (RequestIdPayloads e r s)))
           = length (responses (trace s)) + 1"
proof -
  have p1: "SortBy q \<notin> set (validAllSortBy e) \<longrightarrow>
            trace (Payloads e r s) =
              trace s @
                [IncRequests,
                 WriteResponse 400
                   (getErrorBody (''sort_by must be one of ''
                                    @ strings_Join (validAllSortBy e) '', '') 400)]"
    using assms by (simp add: Payloads_def writeResponse_def emit_def stringInSlice_iff Let_def)
  have p2: "SortBy q \<in> set (validAllSortBy e) \<and> SortDir q \<notin> {''asc'', ''desc''} \<longrightarrow>
            trace (Payloads e r s) =
              trace s @
                [IncRequests,
                 WriteResponse 400 (getErrorBody ''sort_dir must be one of asc, desc'' 400)]"
    using assms
    by (simp add: Payloads_def writeResponse_def emit_def stringInSlice_iff Let_def
        validSortDir_def)
  have p3: "SortBy q \<in> set (validAllSortBy e) \<and> SortDir q \<in> {''asc'', ''desc''}
            \<and> \<not> validTimestamps e q False \<longrightarrow>
            trace (Payloads e r s) =
              trace s @
                [IncRequests,
                 WriteResponse 400 (getErrorBody ''invalid timestamp format provided'' 400)]"
    using assms
    by (simp add: Payloads_def writeResponse_def emit_def stringInSlice_iff Let_def
        validSortDir_def)
  have p4: "SortBy q \<in> set (validAllSortBy e) \<and> SortDir q \<in> {''asc'', ''desc''}
            \<and> validTimestamps e q False \<longrightarrow>
            (\<exists>evs. trace (Payloads e r s) =
               trace s @ [IncRequests, CallRetrievePayloads (Page q) (PageSize q) q] @ evs)"
    using assms
    by (simp add: Payloads_def handler_defs validSortDir_def split: option.splits)
  have i1: "SortBy q0 \<notin> set (validIDSortBy e) \<longrightarrow>
            trace (RequestIdPayloads e r s) =
              trace s @
                [WriteResponse 400
                   (getErrorBody (''sort_by must be one of ''
                                    @ strings_Join (validIDSortBy e) '', '') 400)]"
    using assms
    by (simp add: RequestIdPayloads_def writeResponse_def emit_def stringInSlice_iff Let_def)
  have i2: "SortBy q0 \<in> set (validIDSortBy e) \<and> SortDir q0 \<notin> {''asc'', ''desc''} \<longrightarrow>
            trace (RequestIdPayloads e r s) =
              trace s @
                [WriteResponse 400 (getErrorBody ''sort_dir must be one of asc, desc'' 400)]"
    using assms
    by (simp add: RequestIdPayloads_def writeResponse_def emit_def stringInSlice_iff Let_def
        validSortDir_def)
  have i3: "SortBy q0 \<in> set (validIDSortBy e) \<and> SortDir q0 \<in> {''asc'', ''desc''} \<longrightarrow>
            (\<exists>evs. trace (RequestIdPayloads e r s) =
               trace s @
                 [CallRetrieveRequestIdPayloads (URLParam r ''request_id'') (SortBy q0)
                    (SortDir q0) (Query_Get r ''verbosity'')] @ evs)"
    using assms
    by (simp add: RequestIdPayloads_def handler_defs validSortDir_def split: option.splits)
  have n1: "length (responses (trace (Payloads e r s))) = length (responses (trace s)) + 1"
    by (simp add: Payloads_def handler_defs responses_append split: sum.splits option.splits)
  have n2: "length (responses (trace (RequestIdPayloads e r s)))
           = length (responses (trace s)) + 1"
    by (simp add: RequestIdPayloads_def handler_defs responses_append
        split: sum.splits option.splits)
  have d1: "SortDir q \<notin> {''asc'', ''desc''} \<longrightarrow>
            (\<exists>message. trace (Payloads e r s) =
               trace s @ [IncRequests, WriteResponse 400 (getErrorBody message 400)])"
    using assms
    by (auto simp: Payloads_def writeResponse_def emit_def stringInSlice_iff Let_def
        validSortDir_def)
  have d2: "SortDir q0 \<notin> {''asc'', ''desc''} \<longrightarrow>
            (\<exists>message. trace (RequestIdPayloads e r s) =
               trace s @ [WriteResponse 400 (getErrorBody message 400)])"
    using assms
    by (auto simp: RequestIdPayloads_def writeResponse_def emit_def stringInSlice_iff Let_def
        validSortDir_def)
  have i4: "RequestIdPayloads (e\<lparr>validTimestamps := vt\<rparr>) r s = RequestIdPayloads e r s"
    by (simp add: RequestIdPayloads_def json_Marshal_def Let_def split: sum.splits)
  from p1 p2 p3 p4 i1 i2 i3 d1 d2 i4 n1 n2 show ?thesis by blast
qed

theorem C5_validation_order_witness:
  "trace (Payloads example_env
            (example_request [(''sort_by'', ''created_at''), (''sort_dir'', ''sideways''),
                              (''created_at_from'', ''5''), (''created_at_to'', ''3'')] [] [])
            init_state) =
     [IncRequests,
      WriteResponse 400
        (JObject [(''message'', JString ''sort_dir must be one of asc, desc''),
                  (''status'', JInt 400)])]
   \<and> trace (RequestIdPayloads example_env
            (example_request [(''sort_by'', ''created_at''), (''sort_dir'', ''sideways''),
                              (''created_at_from'', ''5''), (''created_at_to'', ''3'')] ''req-1'' [])
            init_state) =
     [WriteResponse 400
        (JObject [(''message'', JString ''sort_dir must be one of asc, desc''),
                  (''status'', JInt 400)])]"
proof -
  let ?qs = "[(''sort_by'', ''created_at''), (''sort_dir'', ''sideways''),
              (''created_at_from'', ''5''), (''created_at_to'', ''3'')]"
  let ?q = "\<lparr>Page = 1, PageSize = 10, SortBy = ''created_at'', SortDir = ''sideways'',
             startDate = Some 5, endDate = Some 3, freeTextFilters = []\<rparr>"
  have a: "initQuery example_env (example_request ?qs reqID []) = Inr ?q" for reqID
    by (simp add: example_defs)
  have b: "?q = (if Query_Get (example_request ?qs reqID []) ''sort_by'' = []
                 then ?q\<lparr>SortBy := ''created_at''\<rparr> else ?q)" for reqID
    by (simp add: example_defs)
  have c: "SortBy ?q \<in> set (validAllSortBy example_env)
           \<and> SortBy ?q \<in> set (validIDSortBy example_env)
           \<and> SortDir ?q \<notin> {''asc'', ''desc''}"
    by (simp add: example_defs)
  show ?thesis
    using C5_validation_order [OF a b, of "[]" init_state]
      C5_validation_order [OF a b, of "''req-1''" init_state] c
    by (simp add: example_defs getErrorBody_def)
qed

subsection \<open>Not found\<close>

text \<open>Claim C6. A request for /payloads/{request_id} that passes validation and for
  which the storage collaborator returns nil or an empty slice is answered 404, after the
  one collaborator call, with an error body whose message contains the correlation id.\<close>

theorem C6_not_found:
  assumes "initQuery e r = Inr q"
    and "SortBy q \<in> set (validIDSortBy e)"
    and "SortDir q \<in> set validSortDir"
    and "RetrieveRequestIdPayloads e (URLParam r ''request_id'') (SortBy q) (SortDir q)
           (Query_Get r ''verbosity'') = None
         \<or> RetrieveRequestIdPayloads e (URLParam r ''request_id'') (SortBy q) (SortDir q)
           (Query_Get r ''verbosity'') = Some []"
  shows "trace (RequestIdPayloads e r s) =
           trace s @
             [CallRetrieveRequestIdPayloads (URLParam r ''request_id'') (SortBy q) (SortDir q)
                (Query_Get r ''verbosity''),
              WriteResponse 404
                (JObject [(''message'',
                             JString (''payload with id: '' @ URLParam r ''request_id''
                                        @ '' not found'')),
                          (''status'', JInt 404)])]
         \<and> sublist (URLParam r ''request_id'')
               (''payload with id: '' @ URLParam r ''request_id'' @ '' not found'')"
proof -
  have "sublist (URLParam r ''request_id'')
          (''payload with id: '' @ URLParam r ''request_id'' @ '' not found'')"
    by (rule sublist_appendI)
  moreover have "trace (RequestIdPayloads e r s) =
           trace s @
             [CallRetrieveRequestIdPayloads (URLParam r ''request_id'') (SortBy q) (SortDir q)
                (Query_Get r ''verbosity''),
              WriteResponse 404
                (JObject [(''message'',
                             JString (''payload with id: '' @ URLParam r ''request_id''
                                        @ '' not found'')),
                          (''status'', JInt 404)])]"
    using assms by (auto simp: RequestIdPayloads_def handler_defs len_def)
  ultimately show ?thesis by simp
qed

theorem C6_not_found_witness:
  "trace (RequestIdPayloads example_env (example_request [] ''req-9'' []) init_state) =
     [CallRetrieveRequestIdPayloads ''req-9'' ''date'' ''desc'' [],
      WriteResponse 404
        (JObject [(''message'', JString ''payload with id: req-9 not found''),
                  (''status'', JInt 404)])]
   \<and> sublist ''req-9'' ''payload with id: req-9 not found''"
proof -
  let ?r = "example_request [] ''req-9'' []"
  let ?q = "\<lparr>Page = 1, PageSize = 10, SortBy = ''date'', SortDir = ''desc'',
             startDate = None, endDate = None, freeTextFilters = []\<rparr>"
  have a: "initQuery example_env ?r = Inr ?q" by (simp add: example_defs)
  have b: "SortBy ?q \<in> set (validIDSortBy example_env)" by (simp add: example_defs)
  have c: "SortDir ?q \<in> set validSortDir" by (simp add: example_defs)
  have d: "RetrieveRequestIdPayloads example_env (URLParam ?r ''request_id'') (SortBy ?q)
             (SortDir ?q) (Query_Get ?r ''verbosity'') = None
         \<or> RetrieveRequestIdPayloads example_env (URLParam ?r ''request_id'') (SortBy ?q)
             (SortDir ?q) (Query_Get ?r ''verbosity'') = Some []"
    by (simp add: example_defs)
  show ?thesis
    using C6_not_found [OF a b c d, of init_state] by (simp add: example_defs)
qed

subsection \<open>The outbound request\<close>




subsection \<open>Fetching a page\<close>

text \<open>Claim C8. A /payloads request that passes validation invokes RetrievePayloads
  exactly once, with the page and the page size of the descriptor and the descriptor
  itself, and the 200 response body is the object with count, duration and data built
  from the collaborator's result; the only other outcome is the 500 of a failed
  encoding.\<close>

theorem C8_page_fetch:
  assumes "initQuery e r = Inr q0"
    and "q = (if Query_Get r ''sort_by'' = [] then q0\<lparr>SortBy := ''created_at''\<rparr> else q0)"
    and "SortBy q \<in> set (validAllSortBy e)"
    and "SortDir q \<in> set validSortDir"
    and "validTimestamps e q False"
    and "RetrievePayloads e (Page q) (PageSize q) q = (totalCount, records)"
    and "body = JObject [(''count'', JInt totalCount), (''duration'', JSeconds (time_Since e 0)),
                         (''data'', slice_json records)]"
  shows "trace (Payloads e r s) =
           trace s @
             [IncRequests, CallRetrievePayloads (Page q) (PageSize q) q,
              ObserveDBTime (time_Since e 1)] @
             (case json_Marshal_error e body of
                None \<Rightarrow> [WriteResponse 200 body]
              | Some err \<Rightarrow>
                  [LogError err,
                   WriteResponse 500
                     (JObject [(''message'', JString ''Internal Server Issue''),
                               (''status'', JInt 500)])])"
  using assms
  by (simp add: Payloads_def handler_defs PayloadsData_def split: option.splits)

theorem C8_page_fetch_witness:
  "trace (Payloads example_env
            (example_request [(''page'', ''2''), (''page_size'', ''10''),
                              (''sort_by'', ''created_at''), (''sort_dir'', ''desc'')] [] [])
            init_state) =
     [IncRequests,
      CallRetrievePayloads 2 10
        \<lparr>Page = 2, PageSize = 10, SortBy = ''created_at'', SortDir = ''desc'',
         startDate = None, endDate = None, freeTextFilters = []\<rparr>,
      ObserveDBTime 1500001,
      WriteResponse 200
        (JObject [(''count'', JInt 35), (''duration'', JSeconds 1500000),
                  (''data'', JArray (map (\<lambda>i. JObject [(''id'', JInt i)])
                                      [10, 11, 12, 13, 14, 15, 16, 17, 18, 19]))])]"
proof -
  let ?r = "example_request [(''page'', ''2''), (''page_size'', ''10''),
                              (''sort_by'', ''created_at''), (''sort_dir'', ''desc'')] [] []"
  let ?q = "\<lparr>Page = 2, PageSize = 10, SortBy = ''created_at'', SortDir = ''desc'',
             startDate = None, endDate = None, freeTextFilters = []\<rparr>"
  let ?recs = "Some (map (\<lambda>i. JObject [(''id'', JInt i)])
                                      [10, 11, 12, 13, 14, 15, 16, 17, 18, 19])"
  have a: "initQuery example_env ?r = Inr ?q" by (simp add: example_defs)
  have b: "?q = (if Query_Get ?r ''sort_by'' = [] then ?q\<lparr>SortBy := ''created_at''\<rparr> else ?q)"
    by (simp add: example_defs)
  have c: "SortBy ?q \<in> set (validAllSortBy example_env)" by (simp add: example_defs)
  have d: "SortDir ?q \<in> set validSortDir" by (simp add: example_defs)
  have f: "validTimestamps example_env ?q False" by (simp add: example_defs)
  have recs: "example_records = map (\<lambda>i. JObject [(''id'', JInt (int i))]) [0..<35]"
    by (simp add: example_records_def)
  have g: "RetrievePayloads example_env (Page ?q) (PageSize ?q) ?q = (35, ?recs)"
    by (simp add: example_env_def example_RetrievePayloads_def example_records_def
        drop_map take_map upt_rec)
  show ?thesis
    using C8_page_fetch [OF a b c d f g refl, of init_state]
    by (simp add: example_defs slice_json_def)
qed

subsection \<open>The broker status code\<close>

text \<open>Claim C9. The handler never reads the status code of the broker's response:
  whatever the code, a body that decodes into the struct and encodes again is answered 200
  with the encoded struct, and replacing the status code of every broker response by any
  other code changes nothing in what the handler does.\<close>

theorem C9_status_code_ignored:
  assumes "identityHasRole e r ''platform-archive-download''"
    and "url = StorageBrokerURL e @ ''?request_id='' @ URLParam r ''request_id''"
    and "url_Parse_error e url = None"
    and "req = \<lparr>Method = ''GET'', URL = url,
                 Header = [(''x-rh-identity'', Header_Get r ''x-rh-identity'')]\<rparr>"
    and "client_Do e req = Inr \<lparr>StatusCode = code, Body = Inr body\<rparr>"
    and "json_Unmarshal_link e body = Inr link"
    and "json_Marshal_error e (JObject link) = None"
  shows "trace (PayloadArchiveLink e r s) =
           trace s @
             [NewRequest ''GET'' url, ClientDo req,
              LogInfo (URLParam r ''request_id'') (Header_Get r ''x-rh-identity'') body,
              WriteResponse 200 (JObject link)]
         \<and> PayloadArchiveLink
             (e\<lparr>client_Do := \<lambda>x. map_sum id (\<lambda>response. response\<lparr>StatusCode := code'\<rparr>)
                                      (client_Do e x)\<rparr>) r s
           = PayloadArchiveLink e r s"
proof -
  have a: "trace (PayloadArchiveLink e r s) =
           trace s @
             [NewRequest ''GET'' url, ClientDo req,
              LogInfo (URLParam r ''request_id'') (Header_Get r ''x-rh-identity'') body,
              WriteResponse 200 (JObject link)]"
    using assms
    by (simp add: PayloadArchiveLink_def handler_defs http_NewRequest_def Header_Add_def)
  have b: "PayloadArchiveLink
             (e\<lparr>client_Do := \<lambda>x. map_sum id (\<lambda>response. response\<lparr>StatusCode := code'\<rparr>)
                                      (client_Do e x)\<rparr>) r s
           = PayloadArchiveLink e r s"
    by (simp add: PayloadArchiveLink_def Let_def http_NewRequest_def json_Marshal_def
        split: sum.splits option.splits)
  from a b show ?thesis by simp
qed

theorem C9_status_code_ignored_witness:
  "client_Do example_env
     \<lparr>Method = ''GET'', URL = ''http://storage-broker/archive/url?request_id=req-4'',
      Header = [(''x-rh-identity'', ''alice'')]\<rparr>
     = Inr \<lparr>StatusCode = 404, Body = Inr ''{\"url\":\"\"}''\<rparr>
   \<and> trace (PayloadArchiveLink example_env (example_request [] ''req-4'' ''alice'') init_state) =
     [NewRequest ''GET'' ''http://storage-broker/archive/url?request_id=req-4'',
      ClientDo \<lparr>Method = ''GET'', URL = ''http://storage-broker/archive/url?request_id=req-4'',
                Header = [(''x-rh-identity'', ''alice'')]\<rparr>,
      LogInfo ''req-4'' ''alice'' ''{\"url\":\"\"}'',
      WriteResponse 200 (JObject [(''url'', JString [])])]"
proof -
  let ?r = "example_request [] ''req-4'' ''alice''"
  let ?url = "''http://storage-broker/archive/url?request_id=req-4''"
  let ?req = "\<lparr>Method = ''GET'', URL = ?url, Header = [(''x-rh-identity'', ''alice'')]\<rparr>"
  have a: "identityHasRole example_env ?r ''platform-archive-download''"
    by (simp add: example_defs)
  have b: "?url = StorageBrokerURL example_env @ ''?request_id='' @ URLParam ?r ''request_id''"
    by (simp add: example_defs)
  have c: "url_Parse_error example_env ?url = None"
    by (simp add: example_env_def go_url_Parse_error_def stringContainsCTLByte_def)
  have d: "?req = \<lparr>Method = ''GET'', URL = ?url,
                 Header = [(''x-rh-identity'', Header_Get ?r ''x-rh-identity'')]\<rparr>"
    by (simp add: example_defs)
  have f: "client_Do example_env ?req = Inr \<lparr>StatusCode = 404, Body = Inr ''{\"url\":\"\"}''\<rparr>"
    by (simp add: example_env_def example_client_Do_def example_broker_def)
  have g: "json_Unmarshal_link example_env ''{\"url\":\"\"}'' = Inr [(''url'', JString [])]"
    by (simp add: example_env_def go_Unmarshal_struct_def example_decode_def zero_struct_def
        find_field_def set_field_def)
  have h: "json_Marshal_error example_env (JObject [(''url'', JString [])]) = None"
    by (simp add: example_env_def)
  show ?thesis
    using f C9_status_code_ignored [OF a b c d f g h, of init_state 200]
    by (simp add: example_defs)
qed

subsection \<open>The shared verbosity variable\<close>

text \<open>Claim C10. The variable \<open>verbosity\<close> is state shared by the handlers. Handling
  /payloads/{request_id} sets it to the request's verbosity query parameter, and every
  call of RetrieveRequestIdPayloads the handler makes passes that value; handling
  /payloads leaves it unchanged, so after a later /payloads request it still holds the
  value of the earlier request.\<close>

theorem C10_verbosity:
  "verbosity (RequestIdPayloads e r s) = Query_Get r ''verbosity''
   \<and> (\<exists>evs. trace (RequestIdPayloads e r s) = trace s @ evs
          \<and> (\<forall>a b c v. CallRetrieveRequestIdPayloads a b c v \<in> set evs
                \<longrightarrow> v = Query_Get r ''verbosity''))
   \<and> verbosity (Payloads e r s) = verbosity s
   \<and> verbosity (Payloads e r' (RequestIdPayloads e r s)) = Query_Get r ''verbosity''"
proof -
  have a: "verbosity (RequestIdPayloads e r s) = Query_Get r ''verbosity''" for s
    by (simp add: RequestIdPayloads_def handler_defs split: sum.splits)
  have b: "\<exists>evs. trace (RequestIdPayloads e r s) = trace s @ evs
          \<and> (\<forall>a b c v. CallRetrieveRequestIdPayloads a b c v \<in> set evs
                \<longrightarrow> v = Query_Get r ''verbosity'')"
    by (simp add: RequestIdPayloads_def handler_defs split: sum.splits)
  have c: "verbosity (Payloads e r s) = verbosity s" for r s
    by (simp add: Payloads_def handler_defs split: sum.splits)
  from a b c show ?thesis by simp
qed

theorem C10_verbosity_witness:
  "verbosity init_state = ''0''
   \<and> verbosity (RequestIdPayloads example_env
                  (example_request [(''verbosity'', ''2'')] ''req-1'' []) init_state) = ''2''
   \<and> trace (RequestIdPayloads example_env
                  (example_request [(''verbosity'', ''2'')] ''req-1'' []) init_state) =
       [CallRetrieveRequestIdPayloads ''req-1'' ''date'' ''desc'' ''2'',
        CallCalculateDurations
          [JObject [(''status'', JString ''received'')],
           JObject [(''status'', JString ''success'')]],
        WriteResponse 200
          (JObject [(''data'', JArray [JObject [(''status'', JString ''received'')],
                                      JObject [(''status'', JString ''success'')]]),
                    (''durations'', JObject [])])]
   \<and> verbosity (Payloads example_env (example_request [(''verbosity'', ''7'')] [] [])
                  (RequestIdPayloads example_env
                     (example_request [(''verbosity'', ''2'')] ''req-1'' []) init_state)) = ''2''"
  using C10_verbosity [of example_env "example_request [(''verbosity'', ''2'')] ''req-1'' []"
      init_state "example_request [(''verbosity'', ''7'')] [] []"]
  by (simp add: example_defs RequestIdPayloads_def handler_defs len_def elems_def
      PayloadRetrievebyID_def slice_json_def)

end
